theory Spec2Isabelle
  imports Complex_Main
begin

section \<open>Numbers of the program\<close>

text \<open>
  The program computes with numpy float64 values.  They are modelled without rounding:
  a value is a real number, plus infinity, minus infinity, or NaN.  Zero has no sign.
  Comparisons with NaN are false, as in IEEE arithmetic; a division by zero gives an
  infinity or NaN instead of raising (numpy semantics, the values come out of pandas).
\<close>

datatype float64 = Fin real | PInf | NInf | NaN

fun fless :: "float64 \<Rightarrow> float64 \<Rightarrow> bool" where
  "fless (Fin a) (Fin b) = (a < b)"
| "fless (Fin a) PInf = True"
| "fless NInf (Fin b) = True"
| "fless NInf PInf = True"
| "fless _ _ = False"

fun fneg :: "float64 \<Rightarrow> float64" where
  "fneg (Fin a) = Fin (- a)"
| "fneg PInf = NInf"
| "fneg NInf = PInf"
| "fneg NaN = NaN"

fun fabs :: "float64 \<Rightarrow> float64" where
  "fabs (Fin a) = Fin \<bar>a\<bar>"
| "fabs PInf = PInf"
| "fabs NInf = PInf"
| "fabs NaN = NaN"

fun fadd :: "float64 \<Rightarrow> float64 \<Rightarrow> float64" where
  "fadd (Fin a) (Fin b) = Fin (a + b)"
| "fadd NaN _ = NaN"
| "fadd _ NaN = NaN"
| "fadd PInf NInf = NaN"
| "fadd NInf PInf = NaN"
| "fadd PInf _ = PInf"
| "fadd _ PInf = PInf"
| "fadd NInf _ = NInf"
| "fadd _ NInf = NInf"

definition fsub :: "float64 \<Rightarrow> float64 \<Rightarrow> float64" where
  "fsub a b = fadd a (fneg b)"

fun fmul :: "float64 \<Rightarrow> float64 \<Rightarrow> float64" where
  "fmul (Fin a) (Fin b) = Fin (a * b)"
| "fmul NaN _ = NaN"
| "fmul _ NaN = NaN"
| "fmul (Fin a) PInf = (if a > 0 then PInf else if a < 0 then NInf else NaN)"
| "fmul (Fin a) NInf = (if a > 0 then NInf else if a < 0 then PInf else NaN)"
| "fmul PInf (Fin b) = (if b > 0 then PInf else if b < 0 then NInf else NaN)"
| "fmul NInf (Fin b) = (if b > 0 then NInf else if b < 0 then PInf else NaN)"
| "fmul PInf PInf = PInf"
| "fmul NInf NInf = PInf"
| "fmul PInf NInf = NInf"
| "fmul NInf PInf = NInf"

fun fdiv :: "float64 \<Rightarrow> float64 \<Rightarrow> float64" where
  "fdiv (Fin a) (Fin b) =
     (if b \<noteq> 0 then Fin (a / b)
      else if a > 0 then PInf else if a < 0 then NInf else NaN)"
| "fdiv NaN _ = NaN"
| "fdiv _ NaN = NaN"
| "fdiv (Fin a) PInf = Fin 0"
| "fdiv (Fin a) NInf = Fin 0"
| "fdiv PInf (Fin b) = (if b \<ge> 0 then PInf else NInf)"
| "fdiv NInf (Fin b) = (if b \<ge> 0 then NInf else PInf)"
| "fdiv _ _ = NaN"

text \<open>
  A cell of a price column is a finite number or missing (NaN): \<open>None\<close> is NaN.
\<close>

type_synonym cell = "real option"

definition of_cell :: "cell \<Rightarrow> float64" where
  "of_cell c = (case c of Some x \<Rightarrow> Fin x | None \<Rightarrow> NaN)"

datatype py_error = KeyError | IndexError | ValueError | OutOfBoundsDatetime

section \<open>Candle series\<close>

text \<open>
  A pandas DataFrame of candles: the names of its columns and its rows in index order.
  A row carries its timestamp (microseconds), the OHLCV cells and the cells of the
  indicator columns by name.  A frame is empty when it has no row or no column.
\<close>

record row =
  stamp :: int
  Open :: cell
  High :: cell
  Low :: cell
  Close :: cell
  Volume :: cell
  extra :: "(string \<times> float64) list"

record frame =
  columns :: "string list"
  rows :: "row list"

definition empty_frame :: "frame \<Rightarrow> bool" where
  "empty_frame data = (rows data = [] \<or> columns data = [])"

text \<open>\<open>data[col].iloc[-1]\<close> for a price column: KeyError without the column,
  IndexError without a row.\<close>

definition col_last :: "frame \<Rightarrow> string \<Rightarrow> (row \<Rightarrow> cell) \<Rightarrow> py_error + float64" where
  "col_last data name sel =
     (if name \<notin> set (columns data) then Inl KeyError
      else if rows data = [] then Inl IndexError
      else Inr (of_cell (sel (last (rows data)))))"

text \<open>The values of a column that are present: the statistics of pandas skip NaN.\<close>

definition present :: "cell list \<Rightarrow> real list" where
  "present xs = concat (map (\<lambda>c. case c of Some v \<Rightarrow> [v] | None \<Rightarrow> []) xs)"

section \<open>Data provider (data\_provider.py)\<close>

subsection \<open>Cleaning\<close>

text \<open>
  \<open>Series.quantile(q)\<close> with the default linear interpolation, on the values that are
  present: between the two order statistics around position \<open>(n - 1) * q\<close>.
\<close>

definition quantile :: "real list \<Rightarrow> real \<Rightarrow> real" where
  "quantile xs q =
     (let s = sort xs;
          h = (real (length xs) - 1) * q;
          lo = nat \<lfloor>h\<rfloor>;
          hi = min (lo + 1) (length xs - 1)
      in s ! lo + (h - real lo) * (s ! hi - s ! lo))"

text \<open>
  One round of the outlier loop of \<open>_clean_data\<close>, for the column read by \<open>sel\<close>: with
  more than 10 rows, keep the rows whose value lies within the bounds, both inclusive.
  A comparison with NaN is false, so a row without the value goes, and so does every
  row when the column holds no value at all (the quantiles are NaN then).
\<close>

definition outlier_filter :: "(row \<Rightarrow> cell) \<Rightarrow> row list \<Rightarrow> row list" where
  "outlier_filter sel data =
     (if length data > 10 then
        (let vals = present (map sel data) in
         if vals = [] then []
         else
           (let Q1 = quantile vals (5 / 100);
                Q3 = quantile vals (95 / 100);
                IQR = Q3 - Q1;
                lower_bound = Q1 - 3 * IQR;
                upper_bound = Q3 + 3 * IQR
            in filter (\<lambda>r. case sel r of
                               Some v \<Rightarrow> lower_bound \<le> v \<and> v \<le> upper_bound
                             | None \<Rightarrow> False) data))
      else data)"

definition required_columns :: "string list" where
  "required_columns = [''Open'', ''High'', ''Low'', ''Close'']"

text \<open>\<open>data.dropna(subset=required_columns)\<close>\<close>

definition dropna :: "row list \<Rightarrow> row list" where
  "dropna data =
     filter (\<lambda>r. Open r \<noteq> None \<and> High r \<noteq> None \<and> Low r \<noteq> None \<and> Close r \<noteq> None) data"

definition clean_data :: "frame \<Rightarrow> frame" where
  "clean_data data =
     (if empty_frame data then data
      else if \<not> list_all (\<lambda>col. col \<in> set (columns data)) required_columns
           then \<lparr> columns = [], rows = [] \<rparr>
      else data \<lparr> rows :=
             outlier_filter Close (outlier_filter Low (outlier_filter High
               (outlier_filter Open (dropna (rows data))))) \<rparr>)"

subsection \<open>The object, the process around it, and the outside world\<close>

text \<open>
  The state: the fields of the \<open>DataProvider\<close> object that the modelled methods read or
  write, and the two pieces of process state they touch, the number of clock readings
  made so far and the global random state of numpy (of an abstract type).  The cache
  holds the entries that \<open>get_symbol_data\<close> writes, a fetch time in microseconds and a
  frame.
\<close>

record 'g state =
  data_sources :: "string list"
  cache_timeout :: int
  cache :: "string \<rightharpoonup> (int \<times> frame)"
  source_status :: "string \<rightharpoonup> bool"
  ta_available :: bool
  mt5_available :: bool
  twelvedata_api_key :: string
  clock_reads :: nat
  np_state :: 'g

text \<open>
  The outside world, as parameters: the value of each reading of \<open>datetime.now()\<close>, the
  \<open>hash\<close> of strings in this process, numpy's random generator (seeding, one normal
  draw, one uniform draw), the raw frames the two upstreams deliver (\<open>None\<close> when the
  request fails or raises), the indicator library pandas\_ta: the columns it attaches
  and their cells by row position, and whether the installed pandas accepts the
  frequency alias \<open>'H'\<close> (newer versions refuse it with a ValueError).
\<close>

record 'g env =
  now_at :: "nat \<Rightarrow> int"
  py_hash :: "string \<Rightarrow> int"
  np_seed :: "nat \<Rightarrow> 'g"
  np_normal :: "real \<Rightarrow> real \<Rightarrow> 'g \<Rightarrow> real \<times> 'g"
  np_random :: "'g \<Rightarrow> real \<times> 'g"
  mt5_rates :: "string \<Rightarrow> string \<Rightarrow> string \<Rightarrow> frame option"
  twelvedata_values :: "string \<Rightarrow> string \<Rightarrow> string \<Rightarrow> frame option"
  ta_columns :: "row list \<Rightarrow> string list"
  ta_cells :: "row list \<Rightarrow> nat \<Rightarrow> (string \<times> float64) list"
  hourly_alias :: bool

definition datetime_now :: "'g env \<Rightarrow> 'g state \<Rightarrow> int \<times> 'g state" where
  "datetime_now env s = (now_at env (clock_reads s), s \<lparr> clock_reads := Suc (clock_reads s) \<rparr>)"

text \<open>\<open>timedelta.seconds\<close> of a difference of \<open>d\<close> microseconds: the seconds within the
  day, after the whole days are taken out.\<close>

definition timedelta_seconds :: "int \<Rightarrow> int" where
  "timedelta_seconds d = (d div 1000000) mod 86400"

subsection \<open>Source adapters\<close>

definition get_mt5_data :: "'g env \<Rightarrow> 'g state \<Rightarrow> string \<Rightarrow> string \<Rightarrow> string \<Rightarrow> frame option" where
  "get_mt5_data env s symbol period interval =
     (if \<not> mt5_available s then None
      else (case mt5_rates env symbol period interval of
              None \<Rightarrow> None
            | Some df \<Rightarrow> Some (clean_data df)))"

definition twelvedata_symbols :: "string list" where
  "twelvedata_symbols =
     [''EURUSD'', ''GBPUSD'', ''USDJPY'', ''USDCHF'', ''USDCAD'', ''AUDUSD'', ''NZDUSD'', ''XAUUSD'']"

definition get_twelvedata_data :: "'g env \<Rightarrow> 'g state \<Rightarrow> string \<Rightarrow> string \<Rightarrow> string \<Rightarrow> frame option" where
  "get_twelvedata_data env s symbol period interval =
     (if twelvedata_api_key s = ''demo'' then None
      else if symbol \<notin> set twelvedata_symbols then None
      else (case twelvedata_values env symbol period interval of
              None \<Rightarrow> None
            | Some df \<Rightarrow> Some (clean_data df)))"

subsection \<open>Indicators\<close>

text \<open>
  \<open>_add_technical_indicators\<close>: nothing on an empty frame or without the library;
  otherwise the library's columns are attached, an assignment to an existing column
  replacing its cells.  The rows and their prices stay as they are.
\<close>

definition add_technical_indicators :: "'g env \<Rightarrow> 'g state \<Rightarrow> frame \<Rightarrow> frame" where
  "add_technical_indicators env s data =
     (if empty_frame data \<or> \<not> ta_available s then data
      else \<lparr> columns = columns data @ filter (\<lambda>c. c \<notin> set (columns data)) (ta_columns env (rows data)),
             rows = map (\<lambda>(i, r). r \<lparr> extra := ta_cells env (rows data) i @ extra r \<rparr>)
                        (enumerate 0 (rows data)) \<rparr>)"

subsection \<open>Synthetic series\<close>

definition base_prices :: "(string \<times> real) list" where
  "base_prices =
     [(''EURUSD'', 10850 / 10000), (''GBPUSD'', 12650 / 10000), (''USDJPY'', 14950 / 100),
      (''USDCHF'', 8850 / 10000), (''USDCAD'', 13600 / 10000), (''AUDUSD'', 6550 / 10000),
      (''NZDUSD'', 6100 / 10000), (''XAUUSD'', 198550 / 100), (''XAGUSD'', 2325 / 100),
      (''USOIL'', 7580 / 100), (''NAS100'', 16050), (''SPX500'', 4550), (''DJI'', 35000)]"

text \<open>
  A pandas Timestamp counts nanoseconds since the epoch in a signed 64-bit integer; a
  stamp of \<open>t\<close> microseconds is representable when its nanoseconds fit.
\<close>

definition in_timestamp_range :: "int \<Rightarrow> bool" where
  "in_timestamp_range t =
     (- 9223372036854775807 \<le> 1000 * t \<and> 1000 * t \<le> 9223372036854775807)"

text \<open>
  \<open>pd.date\_range(end=now, periods=n, freq='H')\<close>: \<open>n\<close> hourly stamps, the last one
  \<open>now\<close>.  The call raises a ValueError when pandas refuses the alias, and
  OutOfBoundsDatetime when the first or the last stamp is outside the Timestamp range.
\<close>

definition date_range :: "'g env \<Rightarrow> int \<Rightarrow> nat \<Rightarrow> py_error + int list" where
  "date_range env now n =
     (if \<not> hourly_alias env then Inl ValueError
      else if \<not> (in_timestamp_range now
                 \<and> in_timestamp_range (if n = 0 then now else now - (int n - 1) * 3600000000))
           then Inl OutOfBoundsDatetime
      else Inr (map (\<lambda>k. now - (int n - 1 - int k) * 3600000000) [0..<n]))"

text \<open>\<open>np.random.normal(mu, sigma, n)\<close>: \<open>n\<close> draws, one after the other.\<close>

fun normals :: "'g env \<Rightarrow> real \<Rightarrow> real \<Rightarrow> nat \<Rightarrow> 'g \<Rightarrow> real list \<times> 'g" where
  "normals env mu sigma 0 g = ([], g)"
| "normals env mu sigma (Suc n) g =
     (let (x, g1) = np_normal env mu sigma g;
          (xs, g2) = normals env mu sigma n g1
      in (x # xs, g2))"

fun cumprod :: "real \<Rightarrow> real list \<Rightarrow> real list" where
  "cumprod acc [] = []"
| "cumprod acc (x # xs) = (acc * x) # cumprod (acc * x) xs"

text \<open>The body of the loop of \<open>_get_dynamic_default_data\<close> for candle \<open>i\<close>.\<close>

definition candle :: "'g env \<Rightarrow> nat \<Rightarrow> int \<Rightarrow> real \<Rightarrow> 'g \<Rightarrow> row \<times> 'g" where
  "candle env i date price g =
     (let volatility = (2 / 1000) * (1 + (1 / 2) * sin (real i / 50));
          open_price = price;
          (n1, g1) = np_normal env 0 volatility g;
          high_price = price * (1 + \<bar>n1\<bar>);
          (n2, g2) = np_normal env 0 volatility g1;
          low_price = price * (1 - \<bar>n2\<bar>);
          (n3, g3) = np_normal env 0 (volatility * (1 / 2)) g2;
          close_price = price * (1 + n3);
          high_price = max (max open_price close_price) high_price;
          low_price = min (min open_price close_price) low_price;
          (u, g4) = np_random env g3;
          volume = 1000000 * (8 / 10 + (4 / 10) * sin (real i / 20) + (3 / 10) * u)
      in (\<lparr> stamp = date, Open = Some open_price, High = Some high_price,
             Low = Some low_price, Close = Some close_price, Volume = Some volume,
             extra = [] \<rparr>, g4))"

fun candles :: "'g env \<Rightarrow> nat \<Rightarrow> (int \<times> real) list \<Rightarrow> 'g \<Rightarrow> row list \<times> 'g" where
  "candles env i [] g = ([], g)"
| "candles env i ((date, price) # rest) g =
     (let (r, g1) = candle env i date price g;
          (rs, g2) = candles env (Suc i) rest g1
      in (r # rs, g2))"

text \<open>
  \<open>_get_dynamic_default_data\<close>: the clock is read for the dates, numpy is seeded with
  \<open>hash(symbol) % 10000\<close>, the returns are drawn, then the candles, and the frame is
  cleaned.  The result is the frame and the state after the call.  The body runs under
  \<open>try\<close>: when \<open>pd.date\_range\<close> raises, the handler returns \<open>None\<close>, the clock has been
  read and numpy has not been seeded.  Over the reals no later step raises.  The local
  \<open>spread\<close> of the loop is computed and never used, and is left out.
\<close>

definition get_dynamic_default_data :: "'g env \<Rightarrow> string \<Rightarrow> 'g state \<Rightarrow> frame option \<times> 'g state" where
  "get_dynamic_default_data env symbol s =
     (let base_price = (case map_of base_prices symbol of Some b \<Rightarrow> b | None \<Rightarrow> 1);
          (now, s1) = datetime_now env s
      in case date_range env now 500 of
           Inl e \<Rightarrow> (None, s1)
         | Inr dates \<Rightarrow>
             (let g0 = np_seed env (nat (py_hash env symbol mod 10000));
                  (returns, g1) = normals env (1 / 10000) (5 / 1000) (length dates) g0;
                  prices = map (\<lambda>c. base_price * c) (cumprod 1 (map (\<lambda>r. 1 + r) returns));
                  (data, g2) = candles env 0 (zip dates prices) g1;
                  df = \<lparr> columns = [''Open'', ''High'', ''Low'', ''Close'', ''Volume''],
                         rows = data \<rparr>
              in (Some (clean_data df), s1 \<lparr> np_state := g2 \<rparr>)))"

subsection \<open>The query\<close>

definition cache_key_of :: "string \<Rightarrow> string \<Rightarrow> string \<Rightarrow> string" where
  "cache_key_of symbol period interval = symbol @ ''_'' @ period @ ''_'' @ interval"

text \<open>
  The cache check at the head of \<open>get_symbol_data\<close>: the copy of the cached frame when
  the entry passes the test, and the state after the clock reading.
\<close>

definition cache_lookup :: "'g env \<Rightarrow> string \<Rightarrow> 'g state \<Rightarrow> frame option \<times> 'g state" where
  "cache_lookup env cache_key s =
     (case cache s cache_key of
        None \<Rightarrow> (None, s)
      | Some (cached_time, data) \<Rightarrow>
          (let (now, s1) = datetime_now env s
           in if timedelta_seconds (now - cached_time) < cache_timeout s
              then (Some data, s1) else (None, s1)))"

definition working_sources :: "'g state \<Rightarrow> string list" where
  "working_sources s =
     filter (\<lambda>src. case source_status s src of Some b \<Rightarrow> b | None \<Rightarrow> False) (data_sources s)"

definition fetch :: "'g env \<Rightarrow> 'g state \<Rightarrow> string \<Rightarrow> string \<Rightarrow> string \<Rightarrow> string \<Rightarrow> frame option" where
  "fetch env s source symbol period interval =
     (if source = ''mt5'' then get_mt5_data env s symbol period interval
      else if source = ''twelvedata'' then get_twelvedata_data env s symbol period interval
      else None)"

text \<open>Indicators if the library is there, then the cache entry with the time of the
  store: the common tail of a successful fetch and of the fallback.\<close>

definition finish :: "'g env \<Rightarrow> string \<Rightarrow> frame \<Rightarrow> 'g state \<Rightarrow> frame option \<times> 'g state" where
  "finish env cache_key data s =
     (let data = (if ta_available s then add_technical_indicators env s data else data);
          (now, s1) = datetime_now env s
      in (Some data, s1 \<lparr> cache := (cache s1)(cache_key \<mapsto> (now, data)) \<rparr>))"

text \<open>The loop over the working sources: the first non-empty frame wins.\<close>

fun try_sources ::
  "'g env \<Rightarrow> string list \<Rightarrow> string \<Rightarrow> string \<Rightarrow> string \<Rightarrow> 'g state \<Rightarrow> frame option \<times> 'g state" where
  "try_sources env [] symbol period interval s = (None, s)"
| "try_sources env (source # rest) symbol period interval s =
     (case fetch env s source symbol period interval of
        None \<Rightarrow> try_sources env rest symbol period interval s
      | Some data \<Rightarrow>
          if \<not> empty_frame data
          then finish env (cache_key_of symbol period interval) data s
          else try_sources env rest symbol period interval s)"

definition get_symbol_data ::
  "'g env \<Rightarrow> string \<Rightarrow> string \<Rightarrow> string \<Rightarrow> 'g state \<Rightarrow> frame option \<times> 'g state" where
  "get_symbol_data env symbol period interval s =
     (let cache_key = cache_key_of symbol period interval in
      case cache_lookup env cache_key s of
        (Some data, s1) \<Rightarrow> (Some data, s1)
      | (None, s1) \<Rightarrow>
          if working_sources s1 = [] then get_dynamic_default_data env symbol s1
          else (case try_sources env (working_sources s1) symbol period interval s1 of
                  (Some data, s2) \<Rightarrow> (Some data, s2)
                | (None, s2) \<Rightarrow>
                    (case get_dynamic_default_data env symbol s2 of
                       (Some data, s3) \<Rightarrow> finish env cache_key data s3
                     | (None, s3) \<Rightarrow> (None, s3))))"

section \<open>Signal synthesis (advanced\_analysis.py)\<close>

text \<open>
  The labels are Arabic string literals in the source; each distinct literal is a
  constructor here.  Trend labels: up, down, sideways.  Vote and signal labels: buy,
  sell, neutral (a vote that is cast but takes no side) and wait (the final signal of
  a tie).  The leading underscore of a private method's name is dropped.
\<close>

datatype trend_label = Up | Down | Sideways

datatype signal_label = Buy | Sell | Neutral | Wait

definition short_trend_of :: "float64 \<Rightarrow> float64 \<Rightarrow> trend_label" where
  "short_trend_of price ma20 = (if fless ma20 price then Up else Down)"

definition long_trend_of :: "float64 \<Rightarrow> float64 \<Rightarrow> float64 \<Rightarrow> trend_label" where
  "long_trend_of ma20 ma50 ma200 =
     (if fless ma50 ma20 \<and> fless ma200 ma50 then Up
      else if fless ma20 ma50 \<and> fless ma50 ma200 then Down
      else Sideways)"

definition determine_trend ::
  "frame \<Rightarrow> float64 \<Rightarrow> float64 \<Rightarrow> float64 \<Rightarrow> py_error + ((trend_label \<times> trend_label) \<times> int)" where
  "determine_trend data ma20 ma50 ma200 =
     (case col_last data ''Close'' Close of
        Inl e \<Rightarrow> Inl e
      | Inr price \<Rightarrow>
          (let short_trend = short_trend_of price ma20;
               long_trend = long_trend_of ma20 ma50 ma200;
               strength = (if short_trend = long_trend then 85
                           else if long_trend = Sideways then 50
                           else 30)
           in Inr ((short_trend, long_trend), strength)))"

text \<open>
  \<open>_generate_signal\<close> fills two parallel lists, \<open>signals\<close> and \<open>confidences\<close>, in
  three blocks, one per voter, and then decides.  Each block is a function on the pair
  of lists.
\<close>

type_synonym votes = "signal_label list \<times> int list"

definition ma_voter :: "float64 \<Rightarrow> float64 \<Rightarrow> float64 \<Rightarrow> votes \<Rightarrow> votes" where
  "ma_voter price ma20 ma50 = (\<lambda>(signals, confidences).
     if fless ma20 price \<and> fless ma50 ma20 then (signals @ [Buy], confidences @ [70])
     else if fless price ma20 \<and> fless ma20 ma50 then (signals @ [Sell], confidences @ [70])
     else (signals @ [Neutral], confidences @ [40]))"

definition rsi_voter :: "float64 \<Rightarrow> votes \<Rightarrow> votes" where
  "rsi_voter rsi = (\<lambda>(signals, confidences).
     if fless rsi (Fin 30) then (signals @ [Buy], confidences @ [75])
     else if fless (Fin 70) rsi then (signals @ [Sell], confidences @ [75])
     else (signals @ [Neutral], confidences @ [50]))"

definition distance_to :: "float64 \<Rightarrow> float64 \<Rightarrow> float64" where
  "distance_to price level = fdiv (fabs (fsub price level)) price"

definition sr_voter :: "float64 \<Rightarrow> float64 \<Rightarrow> float64 \<Rightarrow> votes \<Rightarrow> votes" where
  "sr_voter price support resistance = (\<lambda>(signals, confidences).
     let distance_to_support = distance_to price support;
         distance_to_resistance = distance_to price resistance
     in if fless distance_to_support (Fin (1 / 100)) then (signals @ [Buy], confidences @ [80])
        else if fless distance_to_resistance (Fin (1 / 100)) then (signals @ [Sell], confidences @ [80])
        else (signals, confidences))"

text \<open>\<open>np.mean\<close> of a list of ints: NaN for the empty list.\<close>

definition np_mean :: "int list \<Rightarrow> float64" where
  "np_mean xs = (if xs = [] then NaN else Fin (real_of_int (sum_list xs) / real (length xs)))"

text \<open>Python's \<open>min(a, b)\<close>: \<open>b\<close> when \<open>b < a\<close>, else \<open>a\<close>.\<close>

definition py_min :: "float64 \<Rightarrow> float64 \<Rightarrow> float64" where
  "py_min a b = (if fless b a then b else a)"

definition decide :: "votes \<Rightarrow> signal_label \<times> float64" where
  "decide = (\<lambda>(signals, confidences).
     let buy_signals = count_list signals Buy;
         sell_signals = count_list signals Sell
     in if buy_signals > sell_signals then
          (Buy, py_min (Fin 95) (np_mean (map snd (filter (\<lambda>(s, c). s = Buy) (zip signals confidences)))))
        else if sell_signals > buy_signals then
          (Sell, py_min (Fin 95) (np_mean (map snd (filter (\<lambda>(s, c). s = Sell) (zip signals confidences)))))
        else (Wait, py_min (Fin 95) (np_mean confidences)))"

definition cast_votes ::
  "float64 \<Rightarrow> float64 \<Rightarrow> float64 \<Rightarrow> float64 \<Rightarrow> float64 \<Rightarrow> float64 \<Rightarrow> votes" where
  "cast_votes price ma20 ma50 rsi support resistance =
     sr_voter price support resistance (rsi_voter rsi (ma_voter price ma20 ma50 ([], [])))"

definition generate_signal ::
  "frame \<Rightarrow> float64 \<Rightarrow> float64 \<Rightarrow> float64 \<Rightarrow> float64 \<Rightarrow> float64 \<Rightarrow> float64 \<Rightarrow> signal_label \<times> float64" where
  "generate_signal data price ma20 ma50 rsi support resistance =
     decide (cast_votes price ma20 ma50 rsi support resistance)"

text \<open>
  Rolling statistics of pandas, \<open>Series.rolling(w).agg()\<close>: position \<open>i\<close> holds NaN
  until \<open>w\<close> observations are available, NaN when the window holds a NaN, and the
  statistic of the last \<open>w\<close> values otherwise.
\<close>

definition window_at :: "nat \<Rightarrow> 'a list \<Rightarrow> nat \<Rightarrow> 'a list option" where
  "window_at w xs i = (if i + 1 < w then None else Some (take w (drop (i + 1 - w) xs)))"

definition rolling :: "(real list \<Rightarrow> float64) \<Rightarrow> nat \<Rightarrow> cell list \<Rightarrow> float64 list" where
  "rolling agg w xs =
     map (\<lambda>i. case window_at w xs i of
                 None \<Rightarrow> NaN
               | Some win \<Rightarrow> (case those win of None \<Rightarrow> NaN | Some vs \<Rightarrow> agg vs))
         [0..<length xs]"

definition mean_agg :: "real list \<Rightarrow> float64" where
  "mean_agg vs = (if vs = [] then NaN else Fin (sum_list vs / real (length vs)))"

fun min_agg :: "real list \<Rightarrow> float64" where
  "min_agg [] = NaN"
| "min_agg (v # vs) = Fin (fold min vs v)"

fun max_agg :: "real list \<Rightarrow> float64" where
  "max_agg [] = NaN"
| "max_agg (v # vs) = Fin (fold max vs v)"

text \<open>\<open>xs.iloc[-1]\<close>\<close>

definition iloc_last :: "float64 list \<Rightarrow> py_error + float64" where
  "iloc_last xs = (if xs = [] then Inl IndexError else Inr (last xs))"

definition column :: "frame \<Rightarrow> string \<Rightarrow> (row \<Rightarrow> cell) \<Rightarrow> py_error + cell list" where
  "column data name sel =
     (if name \<in> set (columns data) then Inr (map sel (rows data)) else Inl KeyError)"

text \<open>\<open>Series.diff()\<close>: NaN first, then the difference to the previous value.\<close>

definition diff_cells :: "cell list \<Rightarrow> cell list" where
  "diff_cells xs =
     (case xs of
        [] \<Rightarrow> []
      | x # rest \<Rightarrow>
          None # map (\<lambda>(a, b). case (a, b) of (Some u, Some v) \<Rightarrow> Some (v - u) | _ \<Rightarrow> None)
                     (zip xs rest))"

text \<open>
  \<open>_calculate_rsi(prices, period=14)\<close>.  \<open>delta.where(delta > 0, 0)\<close> keeps a positive
  change and puts 0 everywhere else, also where the change is NaN.
\<close>

definition gain_of :: "cell \<Rightarrow> real" where
  "gain_of d = (case d of Some x \<Rightarrow> if x > 0 then x else 0 | None \<Rightarrow> 0)"

definition loss_of :: "cell \<Rightarrow> real" where
  "loss_of d = (case d of Some x \<Rightarrow> if x < 0 then - x else 0 | None \<Rightarrow> 0)"

definition rsi_of_rs :: "float64 \<Rightarrow> float64" where
  "rsi_of_rs rs = fsub (Fin 100) (fdiv (Fin 100) (fadd (Fin 1) rs))"

definition calculate_rsi :: "cell list \<Rightarrow> nat \<Rightarrow> float64 list" where
  "calculate_rsi prices period =
     (let delta = diff_cells prices;
          gain = rolling mean_agg period (map (\<lambda>d. Some (gain_of d)) delta);
          loss = rolling mean_agg period (map (\<lambda>d. Some (loss_of d)) delta);
          rs = map (\<lambda>(g, l). fdiv g l) (zip gain loss)
      in map rsi_of_rs rs)"

definition calculate_support_resistance :: "frame \<Rightarrow> nat \<Rightarrow> py_error + (float64 \<times> float64)" where
  "calculate_support_resistance data window =
     (case column data ''Low'' Low of
        Inl e \<Rightarrow> Inl e
      | Inr lows \<Rightarrow>
          (case column data ''High'' High of
             Inl e \<Rightarrow> Inl e
           | Inr highs \<Rightarrow>
               if length (rows data) < window
               then Inr (min_agg (present lows), max_agg (present highs))
               else (case iloc_last (rolling min_agg window lows) of
                       Inl e \<Rightarrow> Inl e
                     | Inr support \<Rightarrow>
                         (case iloc_last (rolling max_agg window highs) of
                            Inl e \<Rightarrow> Inl e
                          | Inr resistance \<Rightarrow> Inr (support, resistance)))))"

text \<open>The Analysis Result: the dict that \<open>analyze_symbol\<close> builds, key by key.\<close>

record analysis =
  symbol :: string
  current_price :: float64
  trend :: "trend_label \<times> trend_label"
  trend_strength :: int
  signal :: signal_label
  confidence :: float64
  rsi :: float64
  ma20 :: float64
  ma50 :: float64
  ma200 :: float64
  support :: float64
  resistance :: float64
  volatility :: float64
  timestamp :: int

datatype analysis_error = NoData | Failed py_error

text \<open>
  Lines 23 to 60 of \<open>analyze_symbol\<close>: the indicators and the dict.  An exception of
  any step leaves through \<open>Inl\<close>.  The statistic \<open>Series.pct_change().std()\<close> of pandas
  is a parameter, and so is the clock reading of \<open>datetime.now()\<close>.
\<close>

definition rsi_last :: "frame \<Rightarrow> cell list \<Rightarrow> py_error + float64" where
  "rsi_last data closes =
     (if ''RSI'' \<notin> set (columns data) then iloc_last (calculate_rsi closes 14)
      else if rows data = [] then Inl IndexError
      else Inr (case map_of (extra (last (rows data))) ''RSI'' of Some v \<Rightarrow> v | None \<Rightarrow> NaN))"

definition build_analysis ::
  "(cell list \<Rightarrow> float64) \<Rightarrow> int \<Rightarrow> string \<Rightarrow> frame \<Rightarrow> py_error + analysis" where
  "build_analysis pct_change_std now = (\<lambda>smb data.
     case column data ''Close'' Close of
       Inl e \<Rightarrow> Inl e
     | Inr closes \<Rightarrow>
     (case iloc_last (map of_cell closes) of
       Inl e \<Rightarrow> Inl e
     | Inr price \<Rightarrow>
     (case iloc_last (rolling mean_agg 20 closes) of
       Inl e \<Rightarrow> Inl e
     | Inr m20 \<Rightarrow>
     (case iloc_last (rolling mean_agg 50 closes) of
       Inl e \<Rightarrow> Inl e
     | Inr m50 \<Rightarrow>
     (case (if length (rows data) \<ge> 200 then iloc_last (rolling mean_agg 200 closes) else Inr m50) of
       Inl e \<Rightarrow> Inl e
     | Inr m200 \<Rightarrow>
     (case rsi_last data closes of
       Inl e \<Rightarrow> Inl e
     | Inr r \<Rightarrow>
     (let vol = fmul (pct_change_std closes) (Fin (sqrt 252)) in
      case calculate_support_resistance data 20 of
       Inl e \<Rightarrow> Inl e
     | Inr (sp, rt) \<Rightarrow>
     (case determine_trend data m20 m50 m200 of
       Inl e \<Rightarrow> Inl e
     | Inr (tr, strength) \<Rightarrow>
     (case generate_signal data price m20 m50 r sp rt of
       (sig, conf) \<Rightarrow>
         Inr \<lparr> symbol = smb, current_price = price, trend = tr, trend_strength = strength,
               signal = sig, confidence = conf, rsi = r, ma20 = m20, ma50 = m50,
               ma200 = m200, support = sp, resistance = rt, volatility = vol,
               timestamp = now \<rparr>)))))))))"

text \<open>Lines 62 to 67: the admission to the history, and the return.\<close>

definition save_signal :: "analysis \<Rightarrow> analysis list \<Rightarrow> (analysis_error + analysis) \<times> analysis list" where
  "save_signal a signals_history =
     (if fless (Fin 60) (confidence a)
      then (Inr a, signals_history @ [a])
      else (Inr a, signals_history))"

text \<open>
  \<open>analyze_symbol\<close>, with the history of the object as explicit state.  The data provider
  is the collaborator handed to the constructor: its \<open>get_symbol_data\<close> is a parameter.
  The result is the analysis or the error dict, and the history after the call.
\<close>

definition analyze_symbol ::
  "(string \<Rightarrow> string \<Rightarrow> string \<Rightarrow> frame option) \<Rightarrow> (cell list \<Rightarrow> float64) \<Rightarrow> int
     \<Rightarrow> analysis list \<Rightarrow> string \<Rightarrow> (analysis_error + analysis) \<times> analysis list" where
  "analyze_symbol data_provider pct_change_std now signals_history = (\<lambda>smb.
     case data_provider smb ''3mo'' ''4h'' of
       None \<Rightarrow> (Inl NoData, signals_history)
     | Some data \<Rightarrow>
         if empty_frame data then (Inl NoData, signals_history)
         else (case build_analysis pct_change_std now smb data of
                 Inl e \<Rightarrow> (Inl (Failed e), signals_history)
               | Inr a \<Rightarrow> save_signal a signals_history))"

text \<open>
  \<open>history[start:]\<close> of Python: a negative start counts from the end, and the start is
  clipped to the list.
\<close>

definition slice_from :: "'a list \<Rightarrow> int \<Rightarrow> 'a list" where
  "slice_from xs start =
     (let n = int (length xs);
          i = (if start < 0 then max (n + start) 0 else min start n)
      in drop (nat i) xs)"

text \<open>
  \<open>get_signal_history(symbol=None, limit=10)\<close>.  \<open>if symbol:\<close> is Python truthiness:
  \<open>None\<close> and the empty string both mean no filter.
\<close>

definition filtered_history :: "analysis list \<Rightarrow> string option \<Rightarrow> analysis list" where
  "filtered_history signals_history smb =
     (case smb of
        None \<Rightarrow> signals_history
      | Some s \<Rightarrow> if s \<noteq> [] then filter (\<lambda>a. symbol a = s) signals_history else signals_history)"

definition get_signal_history :: "analysis list \<Rightarrow> string option \<Rightarrow> int \<Rightarrow> analysis list" where
  "get_signal_history signals_history smb limit =
     (let history = filtered_history signals_history smb
      in if history \<noteq> [] then slice_from history (- limit) else [])"

text \<open>
  Words of the specification, for comparison with the code: the cast votes as pairs of a
  direction and a confidence, the confidences of the votes for one direction, and the
  arithmetic mean.
\<close>

definition ballots :: "votes \<Rightarrow> (signal_label \<times> int) list" where
  "ballots v = zip (fst v) (snd v)"

definition agreeing :: "signal_label \<Rightarrow> (signal_label \<times> int) list \<Rightarrow> int list" where
  "agreeing d bs = map snd (filter (\<lambda>b. fst b = d) bs)"

definition average :: "int list \<Rightarrow> real" where
  "average xs = real_of_int (sum_list xs) / real (length xs)"

text \<open>
  The mean of the \<open>p\<close> values of a list that end at position \<open>i\<close>, and the membership
  of a value in the interval from 0 to 100.
\<close>

definition window_mean :: "real list \<Rightarrow> nat \<Rightarrow> nat \<Rightarrow> real" where
  "window_mean ys p i = sum_list (take p (drop (i + 1 - p) ys)) / real p"

definition in_0_100 :: "float64 \<Rightarrow> bool" where
  "in_0_100 v = (case v of Fin x \<Rightarrow> 0 \<le> x \<and> x \<le> 100 | _ \<Rightarrow> False)"

text \<open>Concrete price series: fifteen alternating closes.\<close>

definition example_prices :: "cell list" where
  "example_prices = map Some [1, 2, 1, 2, 1, 2, 1, 2, 1, 2, 1, 2, 1, 2, 1]"

text \<open>Concrete inputs: a series of one candle, and an analysis with a given confidence.\<close>

definition example_frame :: frame where
  "example_frame =
     \<lparr> columns = [''Open'', ''High'', ''Low'', ''Close'', ''Volume''],
       rows = [\<lparr> stamp = 0, Open = Some 1, High = Some 1, Low = Some 1, Close = Some 1,
                 Volume = Some 1, extra = [] \<rparr>] \<rparr>"

definition example_analysis :: "string \<Rightarrow> real \<Rightarrow> analysis" where
  "example_analysis smb c =
     \<lparr> symbol = smb, current_price = Fin 1, trend = (Down, Sideways), trend_strength = 50,
       signal = Buy, confidence = Fin c, rsi = NaN, ma20 = NaN, ma50 = NaN, ma200 = NaN,
       support = Fin 1, resistance = Fin 1, volatility = NaN, timestamp = 7 \<rparr>"

text \<open>
  Words of the specification about series: the ordering of one candle (low below open
  and close, high above them), a series that is non-empty with every candle in order,
  an adapter result that counts as a failure (nothing, or an empty frame), and the
  columns of a plain candle frame.
\<close>

definition ohlc_ok :: "row \<Rightarrow> bool" where
  "ohlc_ok r =
     (case (Open r, High r, Low r, Close r) of
        (Some op, Some hi, Some lo, Some cl) \<Rightarrow> lo \<le> min op cl \<and> max op cl \<le> hi
      | _ \<Rightarrow> False)"

definition good_rows :: "row list \<Rightarrow> bool" where
  "good_rows rs = (rs \<noteq> [] \<and> list_all ohlc_ok rs)"

definition failed :: "frame option \<Rightarrow> bool" where
  "failed d = (case d of None \<Rightarrow> True | Some data \<Rightarrow> empty_frame data)"

definition candle_columns :: "string list" where
  "candle_columns = [''Open'', ''High'', ''Low'', ''Close'', ''Volume'']"

text \<open>
  The synthetic generation goes through when the clock reads \<open>now\<close>: pandas accepts the
  hourly alias, and \<open>now\<close> and the first of the 500 stamps, 499 hours earlier, are in the
  Timestamp range.
\<close>

definition generation_succeeds :: "'g env \<Rightarrow> int \<Rightarrow> bool" where
  "generation_succeeds env now =
     (hourly_alias env \<and> in_timestamp_range now
      \<and> in_timestamp_range (now - 499 * 3600000000))"

text \<open>
  A concrete world and concrete states.  The world: a clock that advances one second
  per reading, a random generator that returns the mean, upstreams that deliver
  nothing, an indicator library that attaches an RSI column, and a pandas that accepts
  the hourly alias.  \<open>example_state\<close> is
  the provider as its constructor leaves it without a terminal and with the demo key:
  both sources probed unhealthy.  In \<open>flagged_state\<close> the terminal was probed healthy but
  delivers nothing now.  \<open>stale_state\<close> holds one cache entry fetched at time 0, and in
  \<open>late_env\<close> the clock reads one day and five seconds.
\<close>

definition example_env :: "nat env" where
  "example_env =
     \<lparr> now_at = (\<lambda>k. 1000000 * int k),
       py_hash = (\<lambda>name. int (length name)),
       np_seed = (\<lambda>n. n),
       np_normal = (\<lambda>mu sigma g. (mu, Suc g)),
       np_random = (\<lambda>g. (1 / 2, Suc g)),
       mt5_rates = (\<lambda>a b c. None),
       twelvedata_values = (\<lambda>a b c. None),
       ta_columns = (\<lambda>rs. [''RSI'']),
       ta_cells = (\<lambda>rs i. [(''RSI'', Fin 50)]),
       hourly_alias = True \<rparr>"

definition late_env :: "nat env" where
  "late_env = example_env \<lparr> now_at := (\<lambda>k. 86405000000) \<rparr>"

definition example_state :: "nat state" where
  "example_state =
     \<lparr> data_sources = [''mt5'', ''twelvedata''],
       cache_timeout = 600,
       cache = Map.empty,
       source_status = [''mt5'' \<mapsto> False, ''twelvedata'' \<mapsto> False],
       ta_available = True,
       mt5_available = False,
       twelvedata_api_key = ''demo'',
       clock_reads = 0,
       np_state = 0 \<rparr>"

definition flagged_state :: "nat state" where
  "flagged_state =
     example_state \<lparr> source_status := [''mt5'' \<mapsto> True, ''twelvedata'' \<mapsto> False],
                     mt5_available := True \<rparr>"

definition stale_state :: "nat state" where
  "stale_state = example_state \<lparr> cache := [''EURUSD_1mo_1h'' \<mapsto> (0, example_frame)] \<rparr>"

section \<open>Properties of the signal synthesis\<close>

lemmas vote_defs = cast_votes_def ma_voter_def rsi_voter_def sr_voter_def

lemmas analysis_defs = analyze_symbol_def empty_frame_def build_analysis_def column_def
  iloc_last_def rolling_def window_at_def of_cell_def rsi_last_def calculate_rsi_def
  diff_cells_def calculate_support_resistance_def present_def determine_trend_def col_last_def
  short_trend_of_def long_trend_of_def generate_signal_def decide_def np_mean_def py_min_def
  distance_to_def fsub_def save_signal_def rsi_of_rs_def gain_of_def loss_of_def

subsection \<open>Trend strength\<close>

lemma short_trend_not_sideways: "short_trend_of price m20 \<noteq> Sideways"
  by (simp add: short_trend_of_def)

text \<open>
  C6.  Whenever the series has a last close, \<open>_determine_trend\<close> returns the pair of
  the short-term and the long-term label with a strength that is 85 exactly when the two
  labels agree, 50 exactly when the long-term label is sideways, and 30 exactly in the
  remaining case; so the strength is one of 30, 50 and 85.
\<close>

theorem determine_trend_strength:
  assumes "''Close'' \<in> set (columns data)" and "rows data \<noteq> []"
  shows "\<exists>k. determine_trend data m20 m50 m200 =
            Inr ((short_trend_of (of_cell (Close (last (rows data)))) m20,
                  long_trend_of m20 m50 m200), k)
          \<and> (let s = short_trend_of (of_cell (Close (last (rows data)))) m20;
                  l = long_trend_of m20 m50 m200
              in (k = 85 \<longleftrightarrow> s = l)
               \<and> (k = 50 \<longleftrightarrow> l = Sideways)
               \<and> (k = 30 \<longleftrightarrow> s \<noteq> l \<and> l \<noteq> Sideways)
               \<and> k = (if s = l then 85 else if l = Sideways then 50 else 30)
               \<and> k \<in> {30, 50, 85})"
  using assms short_trend_not_sideways [of "of_cell (Close (last (rows data)))" m20]
  by (auto simp add: determine_trend_def col_last_def Let_def)

theorem determine_trend_strength_witness:
  "''Close'' \<in> set (columns example_frame) \<and> rows example_frame \<noteq> []
   \<and> determine_trend example_frame (Fin 2) (Fin 3) (Fin 4) = Inr ((Down, Down), 85)"
  using determine_trend_strength [of example_frame "Fin 2" "Fin 3" "Fin 4"]
  by (simp add: example_frame_def short_trend_of_def long_trend_of_def of_cell_def)

subsection \<open>Voting\<close>

lemma count_list_agreeing:
  "length sigs = length confs \<Longrightarrow> count_list sigs d = length (agreeing d (zip sigs confs))"
  by (induction sigs confs rule: list_induct2) (simp_all add: agreeing_def)

lemma filter_agreeing: "map snd (filter (\<lambda>(s, c). s = d) bs) = agreeing d bs"
  by (simp add: agreeing_def case_prod_unfold)

lemma py_min_Fin: "py_min (Fin a) (Fin b) = Fin (min a b)"
  by (simp add: py_min_def min_def)

lemma np_mean_average: "xs \<noteq> [] \<Longrightarrow> np_mean xs = Fin (average xs)"
  by (simp add: np_mean_def average_def)

text \<open>
  The decision on any two parallel lists that hold at least one vote: the side with
  more votes wins with the mean confidence of its own votes, a tie waits with the mean
  of all confidences, and the confidence is cut at 95.
\<close>

lemma decide_majority:
  assumes len: "length sigs = length confs" and ne: "sigs \<noteq> []"
  shows "decide (sigs, confs) =
     (let bs = zip sigs confs;
          buys = length (agreeing Buy bs);
          sells = length (agreeing Sell bs)
      in if buys > sells then (Buy, Fin (min 95 (average (agreeing Buy bs))))
         else if sells > buys then (Sell, Fin (min 95 (average (agreeing Sell bs))))
         else (Wait, Fin (min 95 (average (map snd bs)))))"
proof -
  have c: "confs \<noteq> []" using len ne by auto
  have m: "map snd (zip sigs confs) = confs" using len by simp
  have b: "count_list sigs Buy = length (agreeing Buy (zip sigs confs))"
    and s: "count_list sigs Sell = length (agreeing Sell (zip sigs confs))"
    using len by (rule count_list_agreeing)+
  have nb: "length (agreeing Sell (zip sigs confs)) < length (agreeing Buy (zip sigs confs))
      \<Longrightarrow> agreeing Buy (zip sigs confs) \<noteq> []"
    and ns: "length (agreeing Buy (zip sigs confs)) < length (agreeing Sell (zip sigs confs))
      \<Longrightarrow> agreeing Sell (zip sigs confs) \<noteq> []"
    by auto
  show ?thesis
    unfolding decide_def
    by (simp add: Let_def filter_agreeing b s m c nb ns np_mean_average py_min_Fin)
qed

lemma cast_votes_wf:
  "length (fst (cast_votes price m20 m50 r sp rt)) = length (snd (cast_votes price m20 m50 r sp rt))
   \<and> fst (cast_votes price m20 m50 r sp rt) \<noteq> []"
  by (simp add: vote_defs Let_def)

text \<open>
  C3 (as amended).  In \<open>_generate_signal\<close> no cast vote is lost; the final direction is
  buy when the buy votes outnumber the sell votes, sell when the sell votes outnumber the
  buy votes, and wait on a tie, where neutral votes and an abstaining voter count for
  neither side.  The confidence is the mean confidence of the votes for the winning
  side, on a tie the mean of all cast confidences, cut at 95.  For price 99, MA20 101,
  MA50 102, RSI 72 and resistance 99.5 the result is sell with confidence 75, provided
  the price is not within 1% of the support.
\<close>

theorem generate_signal_majority:
  "(let bs = ballots (cast_votes price m20 m50 r sp rt);
        buys = length (agreeing Buy bs);
        sells = length (agreeing Sell bs);
        result = generate_signal data price m20 m50 r sp rt
    in length bs = length (fst (cast_votes price m20 m50 r sp rt))
     \<and> length bs = length (snd (cast_votes price m20 m50 r sp rt))
     \<and> (buys > sells \<longrightarrow> result = (Buy, Fin (min 95 (average (agreeing Buy bs)))))
     \<and> (sells > buys \<longrightarrow> result = (Sell, Fin (min 95 (average (agreeing Sell bs)))))
     \<and> (buys = sells \<longrightarrow> result = (Wait, Fin (min 95 (average (map snd bs)))))
     \<and> (\<exists>c. snd result = Fin c \<and> c \<le> 95))
   \<and> (\<not> fless (distance_to (Fin 99) sp) (Fin (1 / 100)) \<longrightarrow>
        generate_signal data (Fin 99) (Fin 101) (Fin 102) (Fin 72) sp (Fin (995 / 10)) = (Sell, Fin 75))"
proof -
  obtain sigs confs where v: "cast_votes price m20 m50 r sp rt = (sigs, confs)"
    by (cases "cast_votes price m20 m50 r sp rt")
  have wf: "length sigs = length confs" "sigs \<noteq> []"
    using cast_votes_wf [of price m20 m50 r sp rt] by (simp_all add: v)
  have d: "generate_signal data price m20 m50 r sp rt = decide (sigs, confs)"
    by (simp add: generate_signal_def v)
  have scen: "\<not> fless (distance_to (Fin 99) sp) (Fin (1 / 100)) \<Longrightarrow>
        generate_signal data (Fin 99) (Fin 101) (Fin 102) (Fin 72) sp (Fin (995 / 10)) = (Sell, Fin 75)"
    by (simp add: generate_signal_def vote_defs Let_def decide_def np_mean_def py_min_def
          distance_to_def fsub_def)
  show ?thesis
    using scen by (simp add: d decide_majority [OF wf] v ballots_def Let_def wf)
qed

text \<open>
  The scenario of C3 as it is written leaves the support open.  With the support at
  98.5 the price 99 is within 1% of both levels, the third voter buys, and the result
  is sell with confidence 72.5, the mean of 70 and 75.
\<close>

theorem generate_signal_scenario_counterexample:
  "fless (distance_to (Fin 99) (Fin (995 / 10))) (Fin (1 / 100))
   \<and> generate_signal example_frame (Fin 99) (Fin 101) (Fin 102) (Fin 72) (Fin (985 / 10)) (Fin (995 / 10))
       = (Sell, Fin (145 / 2))
   \<and> generate_signal example_frame (Fin 99) (Fin 101) (Fin 102) (Fin 72) (Fin (985 / 10)) (Fin (995 / 10))
       \<noteq> (Sell, Fin 75)"
  by (simp add: generate_signal_def vote_defs Let_def decide_def np_mean_def py_min_def
          distance_to_def fsub_def)

theorem generate_signal_majority_witness:
  "\<not> fless (distance_to (Fin 99) (Fin 90)) (Fin (1 / 100))
   \<and> generate_signal example_frame (Fin 99) (Fin 101) (Fin 102) (Fin 72) (Fin 90) (Fin (995 / 10))
       = (Sell, Fin 75)
   \<and> length (agreeing Buy (ballots (cast_votes (Fin 99) (Fin 101) (Fin 102) (Fin 72) (Fin 90) (Fin (995 / 10)))))
       < length (agreeing Sell (ballots (cast_votes (Fin 99) (Fin 101) (Fin 102) (Fin 72) (Fin 90) (Fin (995 / 10)))))
   \<and> average (agreeing Sell (ballots (cast_votes (Fin 99) (Fin 101) (Fin 102) (Fin 72) (Fin 90) (Fin (995 / 10))))) = 75"
  using generate_signal_majority [of "Fin 99" "Fin 101" "Fin 102" "Fin 72" "Fin 90" "Fin (995 / 10)" example_frame]
  by (simp add: vote_defs Let_def distance_to_def fsub_def ballots_def agreeing_def average_def)

text \<open>
  C10.  When the price is within 1% of the support and within 1% of the resistance, the
  support and resistance voter appends exactly one vote, buy at confidence 80: the
  votes of \<open>_generate_signal\<close> are those of the first two voters followed by that vote.
\<close>

theorem support_takes_precedence:
  assumes "fless (distance_to price sp) (Fin (1 / 100))"
      and "fless (distance_to price rt) (Fin (1 / 100))"
  shows "sr_voter price sp rt (signals, confidences) = (signals @ [Buy], confidences @ [80])
       \<and> cast_votes price m20 m50 r sp rt =
           (fst (rsi_voter r (ma_voter price m20 m50 ([], []))) @ [Buy],
            snd (rsi_voter r (ma_voter price m20 m50 ([], []))) @ [80])"
  using assms by (simp add: sr_voter_def cast_votes_def case_prod_unfold)

theorem support_takes_precedence_witness:
  "fless (distance_to (Fin 100) (Fin (995 / 10))) (Fin (1 / 100))
   \<and> fless (distance_to (Fin 100) (Fin (1005 / 10))) (Fin (1 / 100))
   \<and> sr_voter (Fin 100) (Fin (995 / 10)) (Fin (1005 / 10)) ([Neutral, Neutral], [40, 50])
        = ([Neutral, Neutral, Buy], [40, 50, 80])"
  using support_takes_precedence [of "Fin 100" "Fin (995 / 10)" "Fin (1005 / 10)" "[Neutral, Neutral]" "[40, 50]"]
  by (simp add: distance_to_def fsub_def)

subsection \<open>Signal history\<close>

text \<open>
  C7.  Whatever \<open>analyze_symbol\<close> returns, the history is unchanged on an error, grows
  by exactly the returned analysis when its confidence is above 60, and is unchanged
  otherwise.  Once the analysis is built the call is the admission step: an analysis
  with confidence 60 is returned and not appended, one with confidence 61 is returned
  and appended.
\<close>

theorem history_admission:
  "(analyze_symbol dp vol now h smb = (res, h') \<longrightarrow>
      (case res of
         Inl e \<Rightarrow> h' = h
       | Inr a \<Rightarrow> (fless (Fin 60) (confidence a) \<longrightarrow> h' = h @ [a])
                \<and> (\<not> fless (Fin 60) (confidence a) \<longrightarrow> h' = h)))
   \<and> (dp smb ''3mo'' ''4h'' = Some data \<and> \<not> empty_frame data \<and> build_analysis vol now smb data = Inr a
        \<longrightarrow> analyze_symbol dp vol now h smb = save_signal a h)
   \<and> (confidence a = Fin 60 \<longrightarrow> save_signal a h = (Inr a, h))
   \<and> (confidence a = Fin 61 \<longrightarrow> save_signal a h = (Inr a, h @ [a]))
   \<and> fst (save_signal a h) = Inr a"
  by (auto simp add: analyze_symbol_def save_signal_def split: option.splits sum.splits if_splits)

theorem history_admission_witness:
  "analyze_symbol (\<lambda>s p i. Some example_frame) (\<lambda>c. NaN) 7 [] ''EURUSD''
     = (Inr (example_analysis ''EURUSD'' 80), [example_analysis ''EURUSD'' 80])
   \<and> fless (Fin 60) (confidence (example_analysis ''EURUSD'' 80))
   \<and> save_signal (example_analysis ''EURUSD'' 60) [] = (Inr (example_analysis ''EURUSD'' 60), [])
   \<and> save_signal (example_analysis ''EURUSD'' 61) []
       = (Inr (example_analysis ''EURUSD'' 61), [example_analysis ''EURUSD'' 61])"
  using history_admission [of "\<lambda>s p i. Some example_frame" "\<lambda>c. NaN" 7 "[]" "''EURUSD''"
      "Inr (example_analysis ''EURUSD'' 80)" "[example_analysis ''EURUSD'' 80]" example_frame
      "example_analysis ''EURUSD'' 60"]
    history_admission [of "\<lambda>s p i. Some example_frame" "\<lambda>c. NaN" 7 "[]" "''EURUSD''"
      "Inr (example_analysis ''EURUSD'' 80)" "[example_analysis ''EURUSD'' 80]" example_frame
      "example_analysis ''EURUSD'' 61"]
  by (simp add: analysis_defs vote_defs example_frame_def example_analysis_def)

lemma slice_from_neg:
  "0 < limit \<Longrightarrow> slice_from xs (- limit) = drop (length xs - min (nat limit) (length xs)) xs"
  by (auto simp add: slice_from_def Let_def min_def max_def nat_diff_distrib' nat_add_distrib)

lemma slice_from_zero: "slice_from xs 0 = xs"
  by (simp add: slice_from_def)

text \<open>
  C9.  \<open>get_signal_history\<close> with limit 0 returns the whole filtered history; with a
  positive limit it returns the last \<open>min limit length\<close> entries of the filtered history,
  in their order; an empty filtered history gives the empty list.  The filtered history
  is the history itself without a symbol (or with the empty string), and the entries of
  the given symbol otherwise.
\<close>

theorem get_signal_history_limit:
  "(limit = 0 \<longrightarrow> get_signal_history h smb limit = filtered_history h smb)
   \<and> (0 < limit \<longrightarrow>
        get_signal_history h smb limit =
          drop (length (filtered_history h smb) - min (nat limit) (length (filtered_history h smb)))
               (filtered_history h smb)
        \<and> length (get_signal_history h smb limit) = min (nat limit) (length (filtered_history h smb)))
   \<and> (filtered_history h smb = [] \<longrightarrow> get_signal_history h smb limit = [])
   \<and> filtered_history h None = h
   \<and> filtered_history h (Some []) = h
   \<and> (s \<noteq> [] \<longrightarrow> filtered_history h (Some s) = filter (\<lambda>a. symbol a = s) h)"
  by (auto simp add: get_signal_history_def Let_def slice_from_neg slice_from_zero filtered_history_def)

theorem get_signal_history_limit_witness:
  "get_signal_history
     [example_analysis ''EURUSD'' 65, example_analysis ''GBPUSD'' 80, example_analysis ''EURUSD'' 90]
     (Some ''EURUSD'') 0
   = [example_analysis ''EURUSD'' 65, example_analysis ''EURUSD'' 90]
   \<and> get_signal_history
     [example_analysis ''EURUSD'' 65, example_analysis ''GBPUSD'' 80, example_analysis ''EURUSD'' 90]
     (Some ''EURUSD'') 1
   = [example_analysis ''EURUSD'' 90]
   \<and> get_signal_history [example_analysis ''GBPUSD'' 80] (Some ''EURUSD'') 1 = []"
  using get_signal_history_limit [of 0
      "[example_analysis ''EURUSD'' 65, example_analysis ''GBPUSD'' 80, example_analysis ''EURUSD'' 90]"
      "Some ''EURUSD''" "''EURUSD''"]
    get_signal_history_limit [of 1
      "[example_analysis ''EURUSD'' 65, example_analysis ''GBPUSD'' 80, example_analysis ''EURUSD'' 90]"
      "Some ''EURUSD''" "''EURUSD''"]
    get_signal_history_limit [of 1 "[example_analysis ''GBPUSD'' 80]" "Some ''EURUSD''" "''EURUSD''"]
  by (simp add: example_analysis_def)

subsection \<open>Relative strength index\<close>

lemma those_map_Some: "those (map Some ys) = Some ys"
  by (induction ys) simp_all

lemma rolling_length: "length (rolling agg p xs) = length xs"
  by (simp add: rolling_def)

lemma rolling_early: "i < length xs \<Longrightarrow> i + 1 < p \<Longrightarrow> rolling agg p xs ! i = NaN"
  by (simp add: rolling_def window_at_def)

lemma rolling_full:
  assumes "i < length ys" and "p \<le> i + 1"
  shows "rolling agg p (map (\<lambda>y. Some (f y)) ys) ! i = agg (take p (drop (i + 1 - p) (map f ys)))"
proof -
  have "take p (drop (i + 1 - p) (map (\<lambda>y. Some (f y)) ys)) = map Some (take p (drop (i + 1 - p) (map f ys)))"
    by (simp add: take_map drop_map)
  then show ?thesis
    using assms by (simp add: rolling_def window_at_def those_map_Some)
qed

lemma rolling_mean_full:
  assumes "i < length ys" and "p \<le> i + 1" and "0 < p"
  shows "rolling mean_agg p (map (\<lambda>y. Some (f y)) ys) ! i = Fin (window_mean (map f ys) p i)"
proof -
  have "length (take p (drop (i + 1 - p) (map f ys))) = p"
    using assms by simp
  then have "mean_agg (take p (drop (i + 1 - p) (map f ys))) = Fin (window_mean (map f ys) p i)"
    using assms(3) by (auto simp add: mean_agg_def window_mean_def)
  then show ?thesis
    using rolling_full [OF assms(1,2)] by simp
qed

lemma sum_list_nonneg': "(\<And>x. x \<in> set xs \<Longrightarrow> 0 \<le> x) \<Longrightarrow> 0 \<le> sum_list (xs::real list)"
  by (induction xs) auto

lemma window_mean_nonneg:
  assumes "\<And>y. y \<in> set ys \<Longrightarrow> 0 \<le> y"
  shows "0 \<le> window_mean ys p i"
proof -
  have "0 \<le> sum_list (take p (drop (i + 1 - p) ys))"
    by (rule sum_list_nonneg') (use assms in \<open>auto dest!: in_set_takeD in_set_dropD\<close>)
  then show ?thesis by (simp add: window_mean_def)
qed

lemma gain_nonneg: "0 \<le> gain_of d"
  by (simp add: gain_of_def split: option.splits)

lemma loss_nonneg: "0 \<le> loss_of d"
  by (simp add: loss_of_def split: option.splits)

lemma diff_cells_length: "length (diff_cells xs) = length xs"
  by (cases xs) (simp_all add: diff_cells_def)

lemma rsi_of_rs_div:
  assumes "0 \<le> g" and "0 \<le> l"
  shows "rsi_of_rs (fdiv (Fin g) (Fin l)) =
           (if l \<noteq> 0 then Fin (100 - 100 / (1 + g / l))
            else if g > 0 then Fin 100 else NaN)"
proof -
  have "l \<noteq> 0 \<Longrightarrow> 1 + g / l \<noteq> 0"
    using assms by (smt (verit) divide_nonneg_nonneg)
  then show ?thesis
    using assms by (auto simp add: rsi_of_rs_def fsub_def)
qed

lemma rsi_fin_range:
  assumes "0 \<le> g" and "0 < l"
  shows "0 \<le> 100 - 100 / (1 + g / l)" and "100 - 100 / (1 + g / l) \<le> (100::real)"
proof -
  have "1 \<le> 1 + g / l" using assms by simp
  then have "100 / (1 + g / l) \<le> 100 / 1"
    by (intro divide_left_mono) auto
  then show "0 \<le> 100 - 100 / (1 + g / l)" by simp
  have "0 \<le> 100 / (1 + g / l)" using \<open>1 \<le> 1 + g / l\<close> by simp
  then show "100 - 100 / (1 + g / l) \<le> (100::real)" by simp
qed

lemma calculate_rsi_length: "length (calculate_rsi prices p) = length prices"
  by (simp add: calculate_rsi_def Let_def rolling_length diff_cells_length)

lemma calculate_rsi_nth:
  assumes "i < length prices" and "p \<le> i + 1" and "0 < p"
  shows "calculate_rsi prices p ! i =
           rsi_of_rs (fdiv (Fin (window_mean (map gain_of (diff_cells prices)) p i))
                           (Fin (window_mean (map loss_of (diff_cells prices)) p i)))"
  using assms
  by (simp add: calculate_rsi_def Let_def rolling_length diff_cells_length rolling_mean_full)

lemma calculate_rsi_early:
  assumes "i < length prices" and "i + 1 < p"
  shows "calculate_rsi prices p ! i = NaN"
  using assms
  by (simp add: calculate_rsi_def Let_def rolling_length diff_cells_length rolling_early rsi_of_rs_def fsub_def)

text \<open>
  C5 (as amended).  The RSI series has the length of the price series and is NaN before
  position 13.  From position 13 on, with \<open>g\<close> and \<open>l\<close> the means of the gains and of
  the losses over the 14 changes that end there: both are non-negative; when \<open>l\<close> is
  positive the RSI is \<open>100 - 100 / (1 + g / l)\<close>; when \<open>l\<close> is 0 and \<open>g\<close> is positive the
  RSI is 100; so the RSI lies in the interval from 0 to 100 whenever the window holds a
  price change.  When the window holds no change, \<open>g\<close> and \<open>l\<close> are both 0 and the RSI
  is NaN.
\<close>

theorem rsi_bounds:
  "length (calculate_rsi prices 14) = length prices
   \<and> (i < length prices \<and> i < 13 \<longrightarrow> calculate_rsi prices 14 ! i = NaN)
   \<and> (i < length prices \<and> 13 \<le> i \<longrightarrow>
       (let g = window_mean (map gain_of (diff_cells prices)) 14 i;
            l = window_mean (map loss_of (diff_cells prices)) 14 i
        in 0 \<le> g \<and> 0 \<le> l
         \<and> (0 < l \<longrightarrow> calculate_rsi prices 14 ! i = Fin (100 - 100 / (1 + g / l)))
         \<and> (l = 0 \<and> 0 < g \<longrightarrow> calculate_rsi prices 14 ! i = Fin 100)
         \<and> (0 < g + l \<longrightarrow> in_0_100 (calculate_rsi prices 14 ! i))
         \<and> (g + l = 0 \<longrightarrow> calculate_rsi prices 14 ! i = NaN)))"
proof -
  let ?g = "window_mean (map gain_of (diff_cells prices)) 14 i"
  let ?l = "window_mean (map loss_of (diff_cells prices)) 14 i"
  have g: "0 \<le> ?g" by (rule window_mean_nonneg) (auto simp add: gain_nonneg)
  have l: "0 \<le> ?l" by (rule window_mean_nonneg) (auto simp add: loss_nonneg)
  have full: "i < length prices \<Longrightarrow> 13 \<le> i \<Longrightarrow>
      calculate_rsi prices 14 ! i =
        (if ?l \<noteq> 0 then Fin (100 - 100 / (1 + ?g / ?l)) else if ?g > 0 then Fin 100 else NaN)"
    unfolding rsi_of_rs_div [OF g l, symmetric] by (rule calculate_rsi_nth) simp_all
  have rng: "0 < ?l \<Longrightarrow> in_0_100 (Fin (100 - 100 / (1 + ?g / ?l)))"
    using rsi_fin_range [OF g, of ?l] by (simp add: in_0_100_def)
  have early: "i < length prices \<Longrightarrow> i < 13 \<Longrightarrow> calculate_rsi prices 14 ! i = NaN"
    by (simp add: calculate_rsi_early)
  show ?thesis
    using g l full rng early
    by (auto simp add: calculate_rsi_length Let_def in_0_100_def)
qed

text \<open>
  On a flat series the mean loss is 0 and the RSI at the last position is NaN: neither
  100 nor any other value of the interval.
\<close>

theorem rsi_flat_counterexample:
  "\<not> in_0_100 (calculate_rsi (replicate 15 (Some 1)) 14 ! 14)
   \<and> calculate_rsi (replicate 15 (Some 1)) 14 ! 14 = NaN
   \<and> window_mean (map loss_of (diff_cells (replicate 15 (Some 1)))) 14 14 = 0"
  by code_simp

theorem rsi_bounds_witness:
  "14 < length example_prices
   \<and> 0 < window_mean (map loss_of (diff_cells example_prices)) 14 14
   \<and> calculate_rsi example_prices 14 ! 14 = Fin 50
   \<and> in_0_100 (calculate_rsi example_prices 14 ! 14)
   \<and> calculate_rsi example_prices 14 ! 3 = NaN"
  using rsi_bounds [of example_prices 14] rsi_bounds [of example_prices 3]
  by code_simp

section \<open>Properties of the data provider\<close>

subsection \<open>The synthetic series\<close>

lemma ohlc_ok_row:
  "ohlc_ok \<lparr> stamp = d, Open = Some a, High = Some (max (max a c) h),
             Low = Some (min (min a c) l), Close = Some c, Volume = v, extra = e \<rparr>"
  by (auto simp add: ohlc_ok_def min_def max_def)

lemma candle_ok: "ohlc_ok (fst (candle env i date price g))"
  unfolding candle_def Let_def split_beta fst_conv by (rule ohlc_ok_row)

lemma candles_ok: "list_all ohlc_ok (fst (candles env i xs g))"
proof (induction xs arbitrary: i g)
  case Nil
  show ?case by simp
next
  case (Cons x xs)
  obtain date price where x: "x = (date, price)" by (cases x)
  show ?case
    using Cons.IH candle_ok [of env i date price g]
    by (simp add: x Let_def split_beta)
qed

lemma candles_length: "length (fst (candles env i xs g)) = length xs"
proof (induction xs arbitrary: i g)
  case Nil
  show ?case by simp
next
  case (Cons x xs)
  obtain date price where x: "x = (date, price)" by (cases x)
  show ?case using Cons.IH by (simp add: x Let_def split_beta)
qed

lemma normals_length: "length (fst (normals env mu sigma n g)) = n"
  by (induction n arbitrary: g) (simp_all add: Let_def split_beta)

lemma cumprod_length: "length (cumprod acc xs) = length xs"
  by (induction xs arbitrary: acc) simp_all

lemma date_range_length: "date_range env now n = Inr dates \<Longrightarrow> length dates = n"
  by (auto simp add: date_range_def split: if_splits)

lemma date_range_succeeds:
  "generation_succeeds env now \<Longrightarrow> \<exists>dates. date_range env now 500 = Inr dates"
  by (simp add: generation_succeeds_def date_range_def)

lemma date_range_raises:
  "\<not> generation_succeeds env now \<Longrightarrow> \<exists>e. date_range env now 500 = Inl e"
  by (auto simp add: generation_succeeds_def date_range_def)

text \<open>
  C8.  Two calls of \<open>_get_dynamic_default_data\<close> for the same symbol in the same process
  (one world: one \<open>hash\<close>, one generator) whose clock readings agree return the same
  series, whatever the two states are otherwise, the global random state before the
  call included: the generator is seeded from the hash of the symbol before the first
  draw.  This covers the case that both calls return \<open>None\<close> because \<open>pd.date\_range\<close>
  raises at that reading.  When a series is returned, the random state after the call
  is the same too.
\<close>

theorem synthetic_deterministic:
  assumes "now_at env (clock_reads s1) = now_at env (clock_reads s2)"
  shows "fst (get_dynamic_default_data env smb s1) = fst (get_dynamic_default_data env smb s2)
       \<and> (fst (get_dynamic_default_data env smb s1) \<noteq> None \<longrightarrow>
            np_state (snd (get_dynamic_default_data env smb s1))
              = np_state (snd (get_dynamic_default_data env smb s2)))"
  using assms
  by (simp add: get_dynamic_default_data_def datetime_now_def Let_def split_beta split: sum.splits)

theorem synthetic_deterministic_witness:
  "now_at example_env (clock_reads example_state)
     = now_at example_env (clock_reads (example_state \<lparr> np_state := 42 \<rparr>))
   \<and> fst (get_dynamic_default_data example_env ''EURUSD'' example_state)
     = fst (get_dynamic_default_data example_env ''EURUSD'' (example_state \<lparr> np_state := 42 \<rparr>))
   \<and> fst (get_dynamic_default_data example_env ''EURUSD'' example_state) \<noteq> None
   \<and> np_state (snd (get_dynamic_default_data example_env ''EURUSD'' example_state))
     = np_state (snd (get_dynamic_default_data example_env ''EURUSD'' (example_state \<lparr> np_state := 42 \<rparr>)))"
proof -
  have "date_range example_env (now_at example_env (clock_reads example_state)) 500 \<noteq> Inl ValueError
      \<and> date_range example_env (now_at example_env (clock_reads example_state)) 500
          \<noteq> Inl OutOfBoundsDatetime"
    by (simp add: date_range_def in_timestamp_range_def example_env_def example_state_def)
  then have "fst (get_dynamic_default_data example_env ''EURUSD'' example_state) \<noteq> None"
    by (cases "date_range example_env (now_at example_env (clock_reads example_state)) 500")
       (auto simp add: get_dynamic_default_data_def datetime_now_def Let_def split_beta
          date_range_def split: if_splits)
  then show ?thesis
    using synthetic_deterministic [of example_env example_state
        "example_state \<lparr> np_state := 42 \<rparr>" "''EURUSD''"]
    by simp
qed

subsection \<open>Cleaning keeps a well-formed series\<close>

lemma quantile_bounds:
  assumes ne: "xs \<noteq> []" and q0: "0 \<le> q" and q1: "q \<le> 1"
  shows "sort xs ! nat \<lfloor>(real (length xs) - 1) * q\<rfloor> \<le> quantile xs q"
    and "quantile xs q \<le> sort xs ! min (nat \<lfloor>(real (length xs) - 1) * q\<rfloor> + 1) (length xs - 1)"
    and "nat \<lfloor>(real (length xs) - 1) * q\<rfloor> < length xs"
proof -
  let ?n = "length xs"
  let ?h = "(real ?n - 1) * q"
  let ?lo = "nat \<lfloor>?h\<rfloor>"
  let ?hi = "min (?lo + 1) (?n - 1)"
  let ?s = "sort xs"
  have n: "0 < ?n" using ne by simp
  have rn: "1 \<le> real ?n" using ne by (cases xs) simp_all
  have h0: "0 \<le> ?h" using rn q0 by simp
  have h1: "?h \<le> real ?n - 1"
    using rn q1 by (simp add: mult_left_le)
  have lo_le: "real ?lo \<le> ?h" using h0 by (rule of_nat_floor)
  have lo_gt: "?h < real ?lo + 1" using h0 by linarith
  have "real ?lo \<le> real ?n - 1" using lo_le h1 by linarith
  then have lo_n: "?lo \<le> ?n - 1" using n by linarith
  then show lo_lt: "?lo < ?n" using n by linarith
  have "?hi \<le> ?n - 1" by (rule min.cobounded2)
  then have hi_n: "?hi < ?n" using n by linarith
  have "?lo \<le> ?hi" using lo_n by simp
  then have mono: "?s ! ?lo \<le> ?s ! ?hi"
    using hi_n by (simp add: sorted_nth_mono)
  define f where "f = ?h - real ?lo"
  define a where "a = ?s ! ?lo"
  define b where "b = ?s ! ?hi"
  have f0: "0 \<le> f" using lo_le by (simp add: f_def)
  have f1: "f \<le> 1" using lo_gt by (simp add: f_def)
  have ab: "a \<le> b" using mono by (simp add: a_def b_def)
  have eq: "quantile xs q = a + f * (b - a)"
    by (simp add: quantile_def Let_def f_def a_def b_def)
  have p0: "0 \<le> f * (b - a)" using f0 ab by simp
  have "f * (b - a) \<le> 1 * (b - a)"
    using f1 ab by (intro mult_right_mono) simp_all
  then have p1: "f * (b - a) \<le> b - a" by simp
  have "a \<le> quantile xs q" using p0 by (simp add: eq)
  then show "?s ! ?lo \<le> quantile xs q" by (simp only: a_def)
  have "quantile xs q \<le> b" using p1 by (simp add: eq)
  then show "quantile xs q \<le> ?s ! ?hi" by (simp only: b_def)
qed

lemma middle_between_quantiles:
  assumes "10 < length xs"
  shows "quantile xs (5 / 100) \<le> sort xs ! (length xs div 2)"
    and "sort xs ! (length xs div 2) \<le> quantile xs (95 / 100)"
proof -
  let ?n = "length xs"
  let ?s = "sort xs"
  let ?m = "?n div 2"
  have ne: "xs \<noteq> []" using assms by auto
  have m_lt: "?m < ?n" using assms by simp
  have m_real: "real ?n - 1 \<le> 2 * real ?m" by linarith
  let ?lo1 = "nat \<lfloor>(real ?n - 1) * (5 / 100)\<rfloor>"
  let ?lo3 = "nat \<lfloor>(real ?n - 1) * (95 / 100)\<rfloor>"
  have "0 \<le> (real ?n - 1) * (5 / 100)" using assms by simp
  then have "real ?lo1 \<le> (real ?n - 1) * (5 / 100)" by (rule of_nat_floor)
  moreover have "10 < real ?n" using assms by simp
  ultimately have "real ?lo1 + 1 \<le> real ?m" using m_real by simp
  then have hi1: "min (?lo1 + 1) (?n - 1) \<le> ?m" by linarith
  have "quantile xs (5 / 100) \<le> ?s ! min (?lo1 + 1) (?n - 1)"
    using quantile_bounds(2) [OF ne, of "5 / 100"] by simp
  also have "\<dots> \<le> ?s ! ?m"
    using hi1 m_lt by (simp add: sorted_nth_mono)
  finally show "quantile xs (5 / 100) \<le> ?s ! ?m" .
  have "10 < real ?n" using assms by simp
  moreover have "2 * real ?m \<le> real ?n" by linarith
  ultimately have "real ?m \<le> (real ?n - 1) * (95 / 100)" by simp
  then have "int ?m \<le> \<lfloor>(real ?n - 1) * (95 / 100)\<rfloor>" by (simp add: le_floor_iff)
  then have lo3: "?m \<le> ?lo3" by linarith
  have lo3_lt: "?lo3 < ?n"
    using quantile_bounds(3) [OF ne, of "95 / 100"] by simp
  have "?s ! ?m \<le> ?s ! ?lo3"
    using lo3 lo3_lt by (simp add: sorted_nth_mono)
  also have "\<dots> \<le> quantile xs (95 / 100)"
    using quantile_bounds(1) [OF ne, of "95 / 100"] by simp
  finally show "?s ! ?m \<le> quantile xs (95 / 100)" .
qed

lemma present_all: "None \<notin> set xs \<Longrightarrow> present xs = map the xs"
proof (induction xs)
  case Nil
  show ?case by (simp add: present_def)
next
  case (Cons a xs)
  then show ?case by (cases a) (simp_all add: present_def)
qed

lemma outlier_filter_subset: "set (outlier_filter sel data) \<subseteq> set data"
  by (auto simp add: outlier_filter_def Let_def)

lemma outlier_filter_nonempty:
  assumes ne: "data \<noteq> []" and all: "\<And>r. r \<in> set data \<Longrightarrow> sel r \<noteq> None"
  shows "outlier_filter sel data \<noteq> []"
proof (cases "10 < length data")
  case False
  then show ?thesis using ne by (simp add: outlier_filter_def)
next
  case True
  let ?vals = "present (map sel data)"
  have "None \<notin> set (map sel data)" using all by force
  then have vals: "?vals = map (\<lambda>r. the (sel r)) data"
    by (simp add: present_all comp_def)
  then have len: "10 < length ?vals" using True by simp
  then have vne: "?vals \<noteq> []" by auto
  let ?m = "sort ?vals ! (length ?vals div 2)"
  have "?m \<in> set (sort ?vals)" using len by (intro nth_mem) simp
  then have "?m \<in> set ?vals" by simp
  then obtain r where r: "r \<in> set data" "the (sel r) = ?m"
    unfolding vals by auto
  then have selr: "sel r = Some ?m" using all [OF r(1)] by auto
  let ?Q1 = "quantile ?vals (5 / 100)"
  let ?Q3 = "quantile ?vals (95 / 100)"
  have b: "?Q1 \<le> ?m" "?m \<le> ?Q3"
    using middle_between_quantiles [OF len] by simp_all
  then have "?Q1 - 3 * (?Q3 - ?Q1) \<le> ?m \<and> ?m \<le> ?Q3 + 3 * (?Q3 - ?Q1)" by simp
  then have "r \<in> set (outlier_filter sel data)"
    using True vne r(1) selr by (simp add: outlier_filter_def Let_def)
  then show ?thesis by auto
qed

lemma ohlc_ok_present:
  "ohlc_ok r \<Longrightarrow> Open r \<noteq> None \<and> High r \<noteq> None \<and> Low r \<noteq> None \<and> Close r \<noteq> None"
  by (auto simp add: ohlc_ok_def split: option.splits)

lemma outlier_filter_good:
  assumes g: "good_rows data" and sel: "\<And>r. ohlc_ok r \<Longrightarrow> sel r \<noteq> None"
  shows "good_rows (outlier_filter sel data)"
proof -
  have all: "\<And>r. r \<in> set data \<Longrightarrow> ohlc_ok r"
    using g by (simp add: good_rows_def list_all_iff)
  have "outlier_filter sel data \<noteq> []"
    using g all sel by (intro outlier_filter_nonempty) (auto simp add: good_rows_def)
  moreover have "list_all ohlc_ok (outlier_filter sel data)"
    using all outlier_filter_subset [of sel data] by (auto simp add: list_all_iff)
  ultimately show ?thesis by (simp add: good_rows_def)
qed

lemma dropna_good: "good_rows data \<Longrightarrow> dropna data = data"
  by (auto simp add: good_rows_def dropna_def list_all_iff dest: ohlc_ok_present intro!: filter_True)

lemma clean_data_good:
  assumes g: "good_rows (rows df)" and c: "columns df = candle_columns"
  shows "good_rows (rows (clean_data df))" and "columns (clean_data df) = candle_columns"
proof -
  have ne: "\<not> empty_frame df"
    using g c by (simp add: empty_frame_def good_rows_def candle_columns_def)
  have req: "list_all (\<lambda>col. col \<in> set (columns df)) required_columns"
    by (simp add: c candle_columns_def required_columns_def)
  have eq: "clean_data df = df \<lparr> rows :=
             outlier_filter Close (outlier_filter Low (outlier_filter High
               (outlier_filter Open (rows df)))) \<rparr>"
    using ne req by (simp add: clean_data_def dropna_good [OF g])
  have "good_rows (outlier_filter Close (outlier_filter Low (outlier_filter High
               (outlier_filter Open (rows df)))))"
    by (intro outlier_filter_good g) (auto dest: ohlc_ok_present)
  then show "good_rows (rows (clean_data df))" by (simp add: eq)
  show "columns (clean_data df) = candle_columns" by (simp add: eq c)
qed

lemma synthetic_good:
  assumes ok: "generation_succeeds env (now_at env (clock_reads s))"
  shows "\<exists>data s'. get_dynamic_default_data env smb s = (Some data, s')
     \<and> good_rows (rows data) \<and> columns data = candle_columns
     \<and> cache s' = cache s \<and> ta_available s' = ta_available s"
proof -
  let ?now = "now_at env (clock_reads s)"
  obtain dates where dr: "date_range env ?now 500 = Inr dates"
    using date_range_succeeds [OF ok] by auto
  have dl: "length dates = 500" using dr by (rule date_range_length)
  let ?g0 = "np_seed env (nat (py_hash env smb mod 10000))"
  let ?base = "(case map_of base_prices smb of Some b \<Rightarrow> b | None \<Rightarrow> 1)"
  let ?returns = "normals env (1 / 10000) (5 / 1000) (length dates) ?g0"
  let ?prices = "map (\<lambda>c. ?base * c) (cumprod 1 (map (\<lambda>r. 1 + r) (fst ?returns)))"
  let ?cs = "candles env 0 (zip dates ?prices) (snd ?returns)"
  let ?df = "\<lparr> columns = [''Open'', ''High'', ''Low'', ''Close'', ''Volume''], rows = fst ?cs \<rparr>"
  have len: "length (fst ?cs) = 500"
    by (simp add: candles_length normals_length cumprod_length dl)
  then have "fst ?cs \<noteq> []" by auto
  then have g: "good_rows (rows ?df)"
    by (simp add: good_rows_def candles_ok)
  have c: "columns ?df = candle_columns" by (simp add: candle_columns_def)
  have eq: "get_dynamic_default_data env smb s =
      (Some (clean_data ?df), s \<lparr> clock_reads := Suc (clock_reads s), np_state := snd ?cs \<rparr>)"
    by (simp add: get_dynamic_default_data_def datetime_now_def Let_def split_beta dr)
  show ?thesis
    using clean_data_good [OF g c] by (simp add: eq)
qed

lemma synthetic_none:
  assumes "\<not> generation_succeeds env (now_at env (clock_reads s))"
  shows "get_dynamic_default_data env smb s = (None, s \<lparr> clock_reads := Suc (clock_reads s) \<rparr>)"
proof -
  obtain e where "date_range env (now_at env (clock_reads s)) 500 = Inl e"
    using date_range_raises [OF assms] by auto
  then show ?thesis
    by (simp add: get_dynamic_default_data_def datetime_now_def Let_def)
qed

subsection \<open>The query\<close>

lemma cache_lookup_state:
  "snd (cache_lookup env k s) = s \<or> snd (cache_lookup env k s) = s \<lparr> clock_reads := Suc (clock_reads s) \<rparr>"
  by (simp add: cache_lookup_def datetime_now_def Let_def split: option.splits prod.splits)

lemma working_sources_clock [simp]:
  "working_sources (s \<lparr> clock_reads := n \<rparr>) = working_sources s"
  by (simp add: working_sources_def)

lemma fetch_clock [simp]:
  "fetch env (s \<lparr> clock_reads := n \<rparr>) = fetch env s"
  by (simp add: fetch_def get_mt5_data_def get_twelvedata_data_def fun_eq_iff)

lemma try_sources_all_failed:
  "list_all (\<lambda>src. failed (fetch env s src smb period interval)) srcs
     \<Longrightarrow> try_sources env srcs smb period interval s = (None, s)"
  by (induction srcs) (auto simp add: failed_def split: option.splits)

lemma ohlc_ok_extra [simp]: "ohlc_ok (r \<lparr> extra := e \<rparr>) = ohlc_ok r"
  by (simp add: ohlc_ok_def)

lemma add_technical_indicators_length:
  "length (rows (add_technical_indicators env s data)) = length (rows data)"
  by (simp add: add_technical_indicators_def)

lemma add_technical_indicators_ok:
  "list_all ohlc_ok (rows data) \<Longrightarrow> list_all ohlc_ok (rows (add_technical_indicators env s data))"
  by (auto simp add: add_technical_indicators_def list_all_iff in_set_enumerate_eq)

lemma add_technical_indicators_good:
  assumes "good_rows (rows data)"
  shows "good_rows (rows (add_technical_indicators env s data))"
proof -
  have "length (rows (add_technical_indicators env s data)) \<noteq> 0"
    using assms by (simp add: add_technical_indicators_length good_rows_def)
  then have "rows (add_technical_indicators env s data) \<noteq> []" by (simp only: length_0_conv) simp
  then show ?thesis
    using assms add_technical_indicators_ok [of data env s] by (simp add: good_rows_def)
qed

lemma finish_good:
  assumes "good_rows (rows data)"
  shows "\<exists>d s'. finish env k data s = (Some d, s') \<and> good_rows (rows d)"
  using assms add_technical_indicators_good [OF assms, of env s]
  by (simp add: finish_def Let_def split_beta)

text \<open>
  C4.  When the cache check of \<open>get_symbol_data\<close> gives nothing and every working source
  fails (none is working, or each returns nothing or an empty frame), the call goes to
  the synthetic generator.  Whenever it returns a series, the series is non-empty and
  every candle has its low at most the smaller of open and close and its high at least
  the larger.  It returns a series when the generation goes through at the clock
  reading it makes, and \<open>None\<close> when \<open>pd.date\_range\<close> raises there.
\<close>

theorem fallback_series_well_formed:
  assumes miss: "fst (cache_lookup env (cache_key_of smb period interval) s) = None"
      and fail: "list_all (\<lambda>src. failed (fetch env s src smb period interval)) (working_sources s)"
  shows "(case fst (get_symbol_data env smb period interval s) of
            None \<Rightarrow> True
          | Some data \<Rightarrow> rows data \<noteq> [] \<and> list_all ohlc_ok (rows data))
       \<and> (generation_succeeds env
             (now_at env (clock_reads (snd (cache_lookup env (cache_key_of smb period interval) s))))
           \<longrightarrow> (\<exists>data s'. get_symbol_data env smb period interval s = (Some data, s')
                   \<and> rows data \<noteq> [] \<and> list_all ohlc_ok (rows data)))
       \<and> (\<not> generation_succeeds env
             (now_at env (clock_reads (snd (cache_lookup env (cache_key_of smb period interval) s))))
           \<longrightarrow> fst (get_symbol_data env smb period interval s) = None)"
proof -
  let ?k = "cache_key_of smb period interval"
  obtain s1 where cl: "cache_lookup env ?k s = (None, s1)"
    using miss by (cases "cache_lookup env ?k s") simp
  have s1: "s1 = s \<or> s1 = s \<lparr> clock_reads := Suc (clock_reads s) \<rparr>"
    using cache_lookup_state [of env ?k s] by (simp add: cl)
  then have ws: "working_sources s1 = working_sources s"
    and ft: "fetch env s1 = fetch env s"
    by auto
  let ?ok = "generation_succeeds env (now_at env (clock_reads s1))"
  have direct: "working_sources s1 = [] \<Longrightarrow>
      get_symbol_data env smb period interval s = get_dynamic_default_data env smb s1"
    by (simp add: get_symbol_data_def cl)
  have ts: "try_sources env (working_sources s1) smb period interval s1 = (None, s1)"
    using fail by (intro try_sources_all_failed) (simp add: ws ft)
  have good: "?ok \<Longrightarrow> \<exists>data s'. get_symbol_data env smb period interval s = (Some data, s')
                   \<and> rows data \<noteq> [] \<and> list_all ohlc_ok (rows data)"
  proof -
    assume ok: ?ok
    obtain data s3 where gd: "get_dynamic_default_data env smb s1 = (Some data, s3)"
      and g: "good_rows (rows data)"
      using synthetic_good [OF ok, of smb] by auto
    show ?thesis
    proof (cases "working_sources s1 = []")
      case True
      then show ?thesis using direct gd g by (simp add: good_rows_def)
    next
      case False
      then have "get_symbol_data env smb period interval s = finish env ?k data s3"
        by (simp add: get_symbol_data_def cl ts gd)
      then show ?thesis
        using finish_good [OF g, of env ?k s3] by (auto simp add: good_rows_def)
    qed
  qed
  have none: "\<not> ?ok \<Longrightarrow> fst (get_symbol_data env smb period interval s) = None"
  proof -
    assume "\<not> ?ok"
    then have gd: "get_dynamic_default_data env smb s1 = (None, s1 \<lparr> clock_reads := Suc (clock_reads s1) \<rparr>)"
      by (rule synthetic_none)
    show ?thesis
    proof (cases "working_sources s1 = []")
      case True
      then show ?thesis using direct gd by simp
    next
      case False
      then show ?thesis by (simp add: get_symbol_data_def cl ts gd)
    qed
  qed
  have s1c: "snd (cache_lookup env ?k s) = s1" by (simp add: cl)
  show ?thesis
  proof (cases ?ok)
    case True
    then show ?thesis using good s1c by auto
  next
    case False
    then show ?thesis using none s1c by auto
  qed
qed

theorem fallback_series_well_formed_witness:
  "fst (cache_lookup example_env (cache_key_of ''EURUSD'' ''1mo'' ''1h'') flagged_state) = None
   \<and> working_sources flagged_state = [''mt5'']
   \<and> list_all (\<lambda>src. failed (fetch example_env flagged_state src ''EURUSD'' ''1mo'' ''1h''))
        (working_sources flagged_state)
   \<and> generation_succeeds example_env
        (now_at example_env (clock_reads (snd (cache_lookup example_env
           (cache_key_of ''EURUSD'' ''1mo'' ''1h'') flagged_state))))
   \<and> (\<exists>data s'. get_symbol_data example_env ''EURUSD'' ''1mo'' ''1h'' flagged_state = (Some data, s')
           \<and> rows data \<noteq> [] \<and> list_all ohlc_ok (rows data))
   \<and> \<not> generation_succeeds (example_env \<lparr> hourly_alias := False \<rparr>)
        (now_at (example_env \<lparr> hourly_alias := False \<rparr>) (clock_reads (snd (cache_lookup
           (example_env \<lparr> hourly_alias := False \<rparr>) (cache_key_of ''EURUSD'' ''1mo'' ''1h'') flagged_state))))
   \<and> fst (get_symbol_data (example_env \<lparr> hourly_alias := False \<rparr>) ''EURUSD'' ''1mo'' ''1h'' flagged_state)
        = None"
  using fallback_series_well_formed [of example_env "''EURUSD''" "''1mo''" "''1h''" flagged_state]
    fallback_series_well_formed [of "example_env \<lparr> hourly_alias := False \<rparr>" "''EURUSD''" "''1mo''" "''1h''"
      flagged_state]
  by (simp add: cache_lookup_def flagged_state_def example_state_def example_env_def
        working_sources_def fetch_def get_mt5_data_def failed_def generation_succeeds_def
        in_timestamp_range_def)

text \<open>
  The age test of the cache reads \<open>timedelta.seconds\<close>, which forgets whole days; within
  the first day, an entry younger than the timeout is served.
\<close>

lemma timedelta_seconds_wraps: "timedelta_seconds (d + 86400000000) = timedelta_seconds d"
proof -
  have "(d + 86400000000) div 1000000 = d div 1000000 + 86400" by simp
  then show ?thesis by (simp add: timedelta_seconds_def)
qed

lemma cache_lookup_fresh:
  assumes "cache s k = Some (t, data)"
      and "0 \<le> now_at env (clock_reads s) - t"
      and "now_at env (clock_reads s) - t < cache_timeout s * 1000000"
      and "cache_timeout s \<le> 86400"
  shows "cache_lookup env k s = (Some data, s \<lparr> clock_reads := Suc (clock_reads s) \<rparr>)"
proof -
  let ?d = "now_at env (clock_reads s) - t"
  have a: "0 \<le> ?d div 1000000" using assms(2) by simp
  have b: "?d div 1000000 < cache_timeout s" using assms(3) by linarith
  have "?d div 1000000 < 86400" using b assms(4) by linarith
  then have "timedelta_seconds ?d = ?d div 1000000"
    using a by (simp add: timedelta_seconds_def)
  then show ?thesis
    using assms(1) b by (simp add: cache_lookup_def datetime_now_def)
qed

lemma none_healthy_direct:
  assumes "cache s (cache_key_of smb period interval) = None" and "working_sources s = []"
  shows "get_symbol_data env smb period interval s = get_dynamic_default_data env smb s"
  using assms by (simp add: get_symbol_data_def cache_lookup_def)

lemma synthetic_cache: "cache (snd (get_dynamic_default_data env smb s)) = cache s"
  by (simp add: get_dynamic_default_data_def datetime_now_def Let_def split_beta split: sum.splits)

text \<open>
  C1.  With no source marked healthy (\<open>example_state\<close>), \<open>get_symbol_data\<close> is exactly
  the synthetic generator: the returned frame carries no RSI column although the
  indicator library is available, and the cache has no entry under the key afterwards.
  With a source marked healthy whose adapter fails (\<open>flagged_state\<close>), the same
  synthetic frame comes back with the RSI column attached and is stored under the key.
\<close>

theorem none_healthy_path_uncached:
  "working_sources example_state = []
   \<and> get_symbol_data example_env ''EURUSD'' ''1mo'' ''1h'' example_state
       = get_dynamic_default_data example_env ''EURUSD'' example_state
   \<and> cache (snd (get_symbol_data example_env ''EURUSD'' ''1mo'' ''1h'' example_state))
        ''EURUSD_1mo_1h'' = None
   \<and> (\<exists>d. fst (get_symbol_data example_env ''EURUSD'' ''1mo'' ''1h'' example_state) = Some d
          \<and> ''RSI'' \<notin> set (columns d))
   \<and> working_sources flagged_state = [''mt5'']
   \<and> fetch example_env flagged_state ''mt5'' ''EURUSD'' ''1mo'' ''1h'' = None
   \<and> (\<exists>d t. fst (get_symbol_data example_env ''EURUSD'' ''1mo'' ''1h'' flagged_state) = Some d
          \<and> ''RSI'' \<in> set (columns d)
          \<and> cache (snd (get_symbol_data example_env ''EURUSD'' ''1mo'' ''1h'' flagged_state))
               ''EURUSD_1mo_1h'' = Some (t, d))"
proof -
  have ws: "working_sources example_state = []"
    by (simp add: working_sources_def example_state_def)
  have c: "cache example_state (cache_key_of ''EURUSD'' ''1mo'' ''1h'') = None"
    by (simp add: example_state_def)
  have direct: "get_symbol_data example_env ''EURUSD'' ''1mo'' ''1h'' example_state
       = get_dynamic_default_data example_env ''EURUSD'' example_state"
    using c ws by (rule none_healthy_direct)
  have ok: "generation_succeeds example_env (now_at example_env (clock_reads example_state))"
    by (simp add: generation_succeeds_def in_timestamp_range_def example_env_def example_state_def)
  have ok2: "generation_succeeds example_env (now_at example_env (clock_reads flagged_state))"
    by (simp add: generation_succeeds_def in_timestamp_range_def example_env_def flagged_state_def
          example_state_def)
  obtain d s' where gd: "get_dynamic_default_data example_env ''EURUSD'' example_state = (Some d, s')"
    and cols: "columns d = candle_columns" and cs: "cache s' = cache example_state"
    using synthetic_good [OF ok, of "''EURUSD''"] by auto
  have "cache s' ''EURUSD_1mo_1h'' = None"
    by (simp add: cs example_state_def)
  then have p1: "cache (snd (get_symbol_data example_env ''EURUSD'' ''1mo'' ''1h'' example_state))
        ''EURUSD_1mo_1h'' = None"
    by (simp only: direct gd snd_conv)
  have p2: "\<exists>d. fst (get_symbol_data example_env ''EURUSD'' ''1mo'' ''1h'' example_state) = Some d
          \<and> ''RSI'' \<notin> set (columns d)"
    by (simp add: direct gd cols candle_columns_def)
  have wf: "working_sources flagged_state = [''mt5'']"
    by (simp add: working_sources_def flagged_state_def example_state_def)
  have ff: "fetch example_env flagged_state ''mt5'' ''EURUSD'' ''1mo'' ''1h'' = None"
    by (simp add: fetch_def get_mt5_data_def flagged_state_def example_state_def example_env_def)
  have cl: "cache_lookup example_env (cache_key_of ''EURUSD'' ''1mo'' ''1h'') flagged_state
       = (None, flagged_state)"
    by (simp add: cache_lookup_def flagged_state_def example_state_def)
  obtain d2 s2 where gd2: "get_dynamic_default_data example_env ''EURUSD'' flagged_state = (Some d2, s2)"
    and g2: "good_rows (rows d2)" and cols2: "columns d2 = candle_columns"
    and ta2: "ta_available s2 = ta_available flagged_state"
    using synthetic_good [OF ok2, of "''EURUSD''"] by auto
  have eq: "get_symbol_data example_env ''EURUSD'' ''1mo'' ''1h'' flagged_state
       = finish example_env (cache_key_of ''EURUSD'' ''1mo'' ''1h'') d2 s2"
    by (simp add: get_symbol_data_def cl wf ff gd2)
  have ne2: "\<not> empty_frame d2"
    using g2 cols2 by (simp add: empty_frame_def good_rows_def candle_columns_def)
  have ta: "ta_available s2" by (simp add: ta2 flagged_state_def example_state_def)
  let ?d3 = "add_technical_indicators example_env s2 d2"
  have fin: "finish example_env (cache_key_of ''EURUSD'' ''1mo'' ''1h'') d2 s2 =
      (Some ?d3, s2 \<lparr> clock_reads := Suc (clock_reads s2),
                       cache := (cache s2)(''EURUSD_1mo_1h'' \<mapsto> (now_at example_env (clock_reads s2), ?d3)) \<rparr>)"
    using ta by (simp add: finish_def Let_def datetime_now_def cache_key_of_def)
  have rsi: "''RSI'' \<in> set (columns ?d3)"
    using ne2 ta by (simp add: add_technical_indicators_def cols2 candle_columns_def example_env_def)
  have p3: "\<exists>d t. fst (get_symbol_data example_env ''EURUSD'' ''1mo'' ''1h'' flagged_state) = Some d
          \<and> ''RSI'' \<in> set (columns d)
          \<and> cache (snd (get_symbol_data example_env ''EURUSD'' ''1mo'' ''1h'' flagged_state))
               ''EURUSD_1mo_1h'' = Some (t, d)"
    unfolding eq fin using rsi by simp
  show ?thesis using ws direct p1 p2 wf ff p3 by blast
qed

text \<open>
  C2.  An entry fetched one day and five seconds before the call, with a timeout of
  600 seconds: \<open>timedelta.seconds\<close> of its age is 5, the entry passes the test, and the
  call returns the cached frame without touching the random generator.
\<close>

theorem stale_entry_served:
  "cache stale_state ''EURUSD_1mo_1h'' = Some (0, example_frame)
   \<and> now_at late_env (clock_reads stale_state) - 0 = 86405 * 1000000
   \<and> cache_timeout stale_state = 600
   \<and> timedelta_seconds (now_at late_env (clock_reads stale_state) - 0) = 5
   \<and> fst (get_symbol_data late_env ''EURUSD'' ''1mo'' ''1h'' stale_state) = Some example_frame
   \<and> np_state (snd (get_symbol_data late_env ''EURUSD'' ''1mo'' ''1h'' stale_state)) = np_state stale_state"
  by (simp add: get_symbol_data_def cache_lookup_def cache_key_of_def datetime_now_def
        timedelta_seconds_def stale_state_def example_state_def late_env_def example_env_def)

end
